theory Spec2Isabelle
  imports Complex_Main
begin

section \<open>Data model\<close>

text \<open>
  The game keeps its sprites as Python objects. Python floats are idealised as
  reals; ticks, key codes, event types and rectangle coordinates are Python ints.
\<close>

datatype SpaceEntityType = SHIP | TORPEDO | PHASER

text \<open>The host library's rectangle: left, top, width, height.\<close>

record Rect =
  rx :: int
  ry :: int
  rw :: int
  rh :: int

text \<open>
  The host library's overlap test \<^verbatim>\<open>Rect.colliderect\<close>: rectangles of zero width or
  height never collide, touching edges do not count, negative sizes are normalised.
\<close>

definition colliderect :: "Rect \<Rightarrow> Rect \<Rightarrow> bool" where
  "colliderect a b =
     (if rw a = 0 \<or> rh a = 0 \<or> rw b = 0 \<or> rh b = 0 then False
      else min (rx a) (rx a + rw a) < max (rx b) (rx b + rw b)
         \<and> min (ry a) (ry a + rh a) < max (ry b) (ry b + rh b)
         \<and> max (rx a) (rx a + rw a) > min (rx b) (rx b + rw b)
         \<and> max (ry a) (ry a + rh a) > min (ry b) (ry b + rh b))"

text \<open>
  \<^verbatim>\<open>SpaceEntity\<close>: the attributes of the base class that \<^verbatim>\<open>ship.py\<close> reads and writes.
  \<open>alive\<close> is what the sprite's \<^verbatim>\<open>alive()\<close> returns (membership in some group).
\<close>

record entity =
  entity_type :: SpaceEntityType
  pos :: "real \<times> real"
  vel :: "real \<times> real"
  ang :: real
  rect :: Rect
  alive :: bool

text \<open>
  Projectiles are represented by the arguments their constructors receive in
  \<^verbatim>\<open>ship.py\<close>; the phaser's \<^verbatim>\<open>source_ship\<close> is recorded by the ship's player id.
\<close>

datatype projectile =
    Phaser int "real \<times> real" "real \<times> real" real
  | PhotonTorpedo "real \<times> real" real "real \<times> real"

text \<open>
  \<^verbatim>\<open>BaseShip\<close>. A \<^verbatim>\<open>Group\<close> is the list of its sprites; a \<^verbatim>\<open>GroupSingle\<close> is a list too,
  with its own \<open>add\<close> below. The timestamps start as \<^verbatim>\<open>None\<close>.
\<close>

record base_ship = entity +
  player_id :: int
  torpedo_group :: "projectile list"
  phaser_group :: "projectile list"
  phaser :: "projectile option"
  phaser_last_fired :: "int option"
  torpedo_last_fired :: "int option"
  last_collided_ship :: "int option"

record human_ship = base_ship +
  rotate_ccw_lock :: bool

text \<open>
  The names \<^verbatim>\<open>ship.py\<close> imports from \<^verbatim>\<open>game.conf\<close>; their values are parameters
  of the model.
\<close>

record conf =
  MAX_TORPEDOES_PER_SHIP :: int
  MOVEMENT_TIME_DELAY_MS :: int
  PHASER_FIRE_CD :: int
  TORPEDO_FIRE_CD :: int

section \<open>Collision response of \<^verbatim>\<open>BaseShip.update\<close>\<close>

text \<open>
  Sprites are objects with identity: the store maps an object id to the object,
  a group's \<^verbatim>\<open>sprites()\<close> is a list of ids, and \<^verbatim>\<open>sprite != self\<close> compares ids.
\<close>

type_synonym 'a store = "nat \<Rightarrow> 'a base_ship_scheme"

text \<open>
  The body of the \<^verbatim>\<open>if\<close> in the loop of \<^verbatim>\<open>update\<close> (lines 89 to 111), assignment by
  assignment. \<open>check_overlapping_sprites\<close> (from \<^verbatim>\<open>game.util\<close>) is a parameter that
  returns the truth values of the two overlap results; \<open>now\<close> is the tick read
  by \<^verbatim>\<open>get_ticks()\<close>.
\<close>

definition collide ::
  "('a base_ship_scheme \<Rightarrow> 'a base_ship_scheme \<Rightarrow> bool \<times> bool) \<Rightarrow> int \<Rightarrow> nat \<Rightarrow> nat
     \<Rightarrow> 'a store \<Rightarrow> 'a store" where
  "collide check_overlapping_sprites now self sprite st =
     (let self_vel_x = fst (vel (st self)); self_vel_y = snd (vel (st self));
          other_vel_x = fst (vel (st sprite)); other_vel_y = snd (vel (st sprite));
          new_self_vel_x = (self_vel_x * 0.2) + (other_vel_x * 0.75);
          new_self_vel_y = (self_vel_y * 0.2) + (other_vel_y * 0.75);
          new_other_vel_x = (other_vel_x * 0.2) + (self_vel_x * 0.75);
          new_other_vel_y = (other_vel_y * 0.2) + (self_vel_y * 0.75);
          st1 = st(self := (st self)\<lparr>vel := (new_self_vel_x, new_self_vel_y)\<rparr>);
          st2 = st1(sprite := (st1 sprite)\<lparr>vel := (new_other_vel_x, new_other_vel_y)\<rparr>);
          st3 = st2(self := (st2 self)\<lparr>last_collided_ship := Some now\<rparr>);
          overlap = check_overlapping_sprites (st3 self) (st3 sprite);
          st4 = (if fst overlap
                 then st3(sprite := (st3 sprite)
                        \<lparr>pos := (fst (pos (st3 sprite)) + fst (vel (st3 sprite)),
                                 snd (pos (st3 sprite)))\<rparr>)
                 else st3);
          st5 = (if snd overlap
                 then st4(sprite := (st4 sprite)
                        \<lparr>pos := (fst (pos (st4 sprite)),
                                 snd (pos (st4 sprite)) + snd (vel (st4 sprite)))\<rparr>)
                 else st4)
      in st5)"

text \<open>One iteration of the loop (lines 84 to 111).\<close>

definition collision_step ::
  "('a base_ship_scheme \<Rightarrow> 'a base_ship_scheme \<Rightarrow> bool \<times> bool) \<Rightarrow> int \<Rightarrow> nat \<Rightarrow> nat
     \<Rightarrow> 'a store \<Rightarrow> 'a store" where
  "collision_step check_overlapping_sprites now self sprite st =
     (if sprite \<noteq> self
         \<and> colliderect (rect (st self)) (rect (st sprite))
         \<and> entity_type (st sprite) = SHIP
      then collide check_overlapping_sprites now self sprite st
      else st)"

fun collision_loop ::
  "('a base_ship_scheme \<Rightarrow> 'a base_ship_scheme \<Rightarrow> bool \<times> bool) \<Rightarrow> int \<Rightarrow> nat \<Rightarrow> nat list
     \<Rightarrow> 'a store \<Rightarrow> 'a store" where
  "collision_loop check_overlapping_sprites now self [] st = st"
| "collision_loop check_overlapping_sprites now self (sprite # sprites) st =
     collision_loop check_overlapping_sprites now self sprites
       (collision_step check_overlapping_sprites now self sprite st)"

text \<open>
  \<^verbatim>\<open>super().update\<close> belongs to \<^verbatim>\<open>SpaceEntity\<close>: a parameter that maps the base-class
  attributes of the sprite to their new values and sees no others.
\<close>

definition super_update :: "(entity \<Rightarrow> entity) \<Rightarrow> 'a base_ship_scheme \<Rightarrow> 'a base_ship_scheme" where
  "super_update entity_update s =
     (let e = entity_update (entity.truncate s)
      in s\<lparr>entity_type := entity_type e, pos := pos e, vel := vel e, ang := ang e,
            rect := rect e, alive := alive e\<rparr>)"

definition update ::
  "(entity \<Rightarrow> entity) \<Rightarrow> ('a base_ship_scheme \<Rightarrow> 'a base_ship_scheme \<Rightarrow> bool \<times> bool) \<Rightarrow> int
     \<Rightarrow> nat \<Rightarrow> nat list \<Rightarrow> 'a store \<Rightarrow> 'a store" where
  "update entity_update check_overlapping_sprites now self target_group st =
     collision_loop check_overlapping_sprites now self target_group
       (st(self := super_update entity_update (st self)))"

section \<open>Events, timers and the human-controlled ship\<close>

text \<open>
  An event of the host library carries its type and, for key events, the key.
  The constants are the host library's (version 2).
\<close>

record event =
  etype :: int
  key :: int

definition KEYDOWN :: int where "KEYDOWN = 768"
definition KEYUP :: int where "KEYUP = 769"
definition USEREVENT :: int where "USEREVENT = 32768"
definition K_a :: int where "K_a = 97"
definition K_d :: int where "K_d = 100"
definition K_e :: int where "K_e = 101"
definition K_q :: int where "K_q = 113"
definition K_s :: int where "K_s = 115"

text \<open>
  The host library's timer table: the period in milliseconds at which an event type
  is posted, 0 when no timer is set for it. \<^verbatim>\<open>set_timer(event, millis)\<close> overwrites
  the entry, and \<^verbatim>\<open>set_timer(event, 0)\<close> cancels the timer.
\<close>

type_synonym timers = "int \<Rightarrow> int"

definition set_timer :: "int \<Rightarrow> int \<Rightarrow> timers \<Rightarrow> timers" where
  "set_timer ev millis tm = tm(ev := millis)"

text \<open>
  The five event types that \<^verbatim>\<open>HumanShip.__init__\<close> derives from the player id
  (lines 137 to 141); they are assigned once and never reassigned.
\<close>

definition rotate_cc_repeat_event :: "human_ship \<Rightarrow> int" where
  "rotate_cc_repeat_event s = USEREVENT + player_id s + 1"

definition rotate_cw_repeat_event :: "human_ship \<Rightarrow> int" where
  "rotate_cw_repeat_event s = USEREVENT + player_id s + 2"

definition acc_repeat_event :: "human_ship \<Rightarrow> int" where
  "acc_repeat_event s = USEREVENT + player_id s + 3"

definition fire_torpedoes_repeat_event :: "human_ship \<Rightarrow> int" where
  "fire_torpedoes_repeat_event s = USEREVENT + player_id s + 4"

definition fire_phaser_repeat_event :: "human_ship \<Rightarrow> int" where
  "fire_phaser_repeat_event s = USEREVENT + player_id s + 5"

text \<open>
  \<^verbatim>\<open>BaseShip.__init__\<close> and \<^verbatim>\<open>HumanShip.__init__\<close> (lines 44 to 50 and 134); the first
  argument stands for the attributes that \<^verbatim>\<open>SpaceEntity.__init__\<close> has set.
\<close>

definition HumanShip_init :: "entity \<Rightarrow> int \<Rightarrow> human_ship" where
  "HumanShip_init e pid =
     \<lparr>entity_type = SHIP, pos = pos e, vel = vel e, ang = ang e, rect = rect e,
      alive = alive e,
      player_id = pid, torpedo_group = [], phaser_group = [], phaser = None,
      phaser_last_fired = None, torpedo_last_fired = None, last_collided_ship = None,
      rotate_ccw_lock = False\<rparr>"

text \<open>
  A handler runs on the ship and the timer table and returns both. \<open>now\<close> is the
  tick that \<^verbatim>\<open>get_ticks()\<close> returns while the event is handled.
\<close>

type_synonym hstate = "human_ship \<times> timers"

text \<open>Python's \<^verbatim>\<open>x % y\<close> on floats, for a positive \<open>y\<close>.\<close>

definition py_mod :: "real \<Rightarrow> real \<Rightarrow> real" where
  "py_mod x y = x - of_int \<lfloor>x / y\<rfloor> * y"

text \<open>\<^verbatim>\<open>check_phaser_on_cooldown\<close> and \<^verbatim>\<open>check_torpedo_on_cooldown\<close> (lines 62 to 78):
  \<^verbatim>\<open>not t\<close> holds for \<^verbatim>\<open>None\<close> and for the tick 0.\<close>

definition check_phaser_on_cooldown :: "conf \<Rightarrow> int \<Rightarrow> 'a base_ship_scheme \<Rightarrow> bool" where
  "check_phaser_on_cooldown conf now s =
     (case phaser_last_fired s of
        None \<Rightarrow> False
      | Some t \<Rightarrow>
          if t = 0 then False
          else let flight_time = now - t
               in if flight_time > PHASER_FIRE_CD conf then False else True)"

definition check_torpedo_on_cooldown :: "conf \<Rightarrow> int \<Rightarrow> 'a base_ship_scheme \<Rightarrow> bool" where
  "check_torpedo_on_cooldown conf now s =
     (case torpedo_last_fired s of
        None \<Rightarrow> False
      | Some t \<Rightarrow>
          if t = 0 then False
          else let flight_time = now - t
               in if flight_time > TORPEDO_FIRE_CD conf then False else True)"

text \<open>
  Adding a newly constructed sprite to a \<^verbatim>\<open>Group\<close> appends it (it cannot be a member
  yet); adding to a \<^verbatim>\<open>GroupSingle\<close> replaces the content.
\<close>

definition group_add :: "projectile \<Rightarrow> projectile list \<Rightarrow> projectile list" where
  "group_add x g = g @ [x]"

definition group_single_add :: "projectile \<Rightarrow> projectile list \<Rightarrow> projectile list" where
  "group_single_add x g = [x]"

subsection \<open>\<^verbatim>\<open>_handle_movement_events\<close>\<close>

text \<open>The three key tests under \<^verbatim>\<open>KEYDOWN\<close> (lines 146 to 166).\<close>

definition movement_keydown :: "conf \<Rightarrow> event \<Rightarrow> hstate \<Rightarrow> hstate" where
  "movement_keydown conf e w =
     (let w1 = (if key e = K_a
                then ((fst w)\<lparr>rotate_ccw_lock := True, ang := ang (fst w) - 22.5\<rparr>,
                      set_timer (rotate_cc_repeat_event (fst w)) (MOVEMENT_TIME_DELAY_MS conf) (snd w))
                else w);
          w2 = (if key e = K_d
                then ((fst w1)\<lparr>rotate_ccw_lock := False, ang := ang (fst w1) + 22.5\<rparr>,
                      set_timer (rotate_cw_repeat_event (fst w1)) (MOVEMENT_TIME_DELAY_MS conf) (snd w1))
                else w1);
          w3 = (if key e = K_s
                then ((fst w2)\<lparr>vel := (fst (vel (fst w2)) + cos (ang (fst w2) * pi / 180),
                                       snd (vel (fst w2)) + sin (ang (fst w2) * pi / 180))\<rparr>,
                      set_timer (acc_repeat_event (fst w2)) (MOVEMENT_TIME_DELAY_MS conf) (snd w2))
                else w2)
      in w3)"

text \<open>The three key tests under \<^verbatim>\<open>KEYUP\<close> (lines 169 to 176).\<close>

definition movement_keyup :: "event \<Rightarrow> hstate \<Rightarrow> hstate" where
  "movement_keyup e w =
     (let w1 = (if key e = K_a
                then ((fst w)\<lparr>rotate_ccw_lock := False\<rparr>,
                      set_timer (rotate_cc_repeat_event (fst w)) 0 (snd w))
                else w);
          w2 = (if key e = K_d
                then ((fst w1)\<lparr>rotate_ccw_lock := True\<rparr>,
                      set_timer (rotate_cw_repeat_event (fst w1)) 0 (snd w1))
                else w1);
          w3 = (if key e = K_s
                then (fst w2, set_timer (acc_repeat_event (fst w2)) 0 (snd w2))
                else w2)
      in w3)"

text \<open>The bodies of the three repeat-event tests (lines 179 to 191).\<close>

definition rotate_cc_repeat :: "human_ship \<Rightarrow> human_ship" where
  "rotate_cc_repeat s =
     (let s1 = (if rotate_ccw_lock s then s\<lparr>ang := ang s - 22.5\<rparr> else s)
      in s1\<lparr>ang := py_mod (ang s1) 360\<rparr>)"

definition rotate_cw_repeat :: "human_ship \<Rightarrow> human_ship" where
  "rotate_cw_repeat s =
     (let s1 = (if \<not> rotate_ccw_lock s then s\<lparr>ang := ang s + 22.5\<rparr> else s)
      in s1\<lparr>ang := py_mod (ang s1) 360\<rparr>)"

definition acc_repeat :: "human_ship \<Rightarrow> human_ship" where
  "acc_repeat s =
     s\<lparr>vel := (fst (vel s) + cos (ang s * pi / 180), snd (vel s) + sin (ang s * pi / 180))\<rparr>"

definition handle_movement_events :: "conf \<Rightarrow> event \<Rightarrow> hstate \<Rightarrow> hstate" where
  "handle_movement_events conf e w =
     (let w1 = (if etype e = KEYDOWN then movement_keydown conf e w else w);
          w2 = (if etype e = KEYUP then movement_keyup e w1 else w1);
          w3 = (if etype e = rotate_cc_repeat_event (fst w2)
                then (rotate_cc_repeat (fst w2), snd w2) else w2);
          w4 = (if etype e = rotate_cw_repeat_event (fst w3)
                then (rotate_cw_repeat (fst w3), snd w3) else w3);
          w5 = (if etype e = acc_repeat_event (fst w4)
                then (acc_repeat (fst w4), snd w4) else w4)
      in w5)"

subsection \<open>\<^verbatim>\<open>_handle_firing_weapon_events\<close>\<close>

text \<open>The two key tests under \<^verbatim>\<open>KEYDOWN\<close> (lines 196 to 226): the timer is set before
  the cooldown and the cap are looked at.\<close>

definition firing_keydown :: "conf \<Rightarrow> int \<Rightarrow> event \<Rightarrow> hstate \<Rightarrow> hstate" where
  "firing_keydown conf now e w =
     (let w1 = (if key e = K_q
                then (let tm = set_timer (fire_phaser_repeat_event (fst w)) (PHASER_FIRE_CD conf) (snd w);
                          s = fst w
                      in if \<not> check_phaser_on_cooldown conf now s
                         then (let p = Phaser (player_id s) (pos s) (vel s) (ang s)
                               in (s\<lparr>phaser := Some p,
                                     phaser_group := group_single_add p (phaser_group s),
                                     phaser_last_fired := Some now\<rparr>, tm))
                         else (s, tm))
                else w);
          w2 = (if key e = K_e
                then (let tm = set_timer (fire_torpedoes_repeat_event (fst w1)) (TORPEDO_FIRE_CD conf) (snd w1);
                          s = fst w1
                      in if int (length (torpedo_group s)) < MAX_TORPEDOES_PER_SHIP conf
                            \<and> \<not> check_torpedo_on_cooldown conf now s
                         then (s\<lparr>torpedo_group :=
                                    group_add (PhotonTorpedo (pos s) (ang s) (vel s)) (torpedo_group s),
                                  torpedo_last_fired := Some now\<rparr>, tm)
                         else (s, tm))
                else w1)
      in w2)"

text \<open>The two key tests under \<^verbatim>\<open>KEYUP\<close> (lines 229 to 232).\<close>

definition firing_keyup :: "event \<Rightarrow> hstate \<Rightarrow> hstate" where
  "firing_keyup e w =
     (let w1 = (if key e = K_q
                then (fst w, set_timer (fire_phaser_repeat_event (fst w)) 0 (snd w))
                else w);
          w2 = (if key e = K_e
                then (fst w1, set_timer (fire_torpedoes_repeat_event (fst w1)) 0 (snd w1))
                else w1)
      in w2)"

text \<open>The bodies of the two repeat-event tests (lines 235 to 252).\<close>

definition fire_phaser_repeat :: "int \<Rightarrow> human_ship \<Rightarrow> human_ship" where
  "fire_phaser_repeat now s =
     (let p = Phaser (player_id s) (pos s) (vel s) (ang s)
      in s\<lparr>phaser := Some p, phaser_last_fired := Some now,
            phaser_group := group_single_add p (phaser_group s)\<rparr>)"

definition fire_torpedoes_repeat :: "conf \<Rightarrow> int \<Rightarrow> human_ship \<Rightarrow> human_ship" where
  "fire_torpedoes_repeat conf now s =
     (if int (length (torpedo_group s)) < MAX_TORPEDOES_PER_SHIP conf
      then s\<lparr>torpedo_last_fired := Some now,
             torpedo_group := group_add (PhotonTorpedo (pos s) (ang s) (vel s)) (torpedo_group s)\<rparr>
      else s)"

definition handle_firing_weapon_events :: "conf \<Rightarrow> int \<Rightarrow> event \<Rightarrow> hstate \<Rightarrow> hstate" where
  "handle_firing_weapon_events conf now e w =
     (let w1 = (if etype e = KEYDOWN then firing_keydown conf now e w else w);
          w2 = (if etype e = KEYUP then firing_keyup e w1 else w1);
          w3 = (if etype e = fire_phaser_repeat_event (fst w2)
                then (fire_phaser_repeat now (fst w2), snd w2) else w2);
          w4 = (if etype e = fire_torpedoes_repeat_event (fst w3)
                then (fire_torpedoes_repeat conf now (fst w3), snd w3) else w3)
      in w4)"

subsection \<open>\<^verbatim>\<open>handle_events\<close>\<close>

definition handle_events :: "conf \<Rightarrow> int \<Rightarrow> event \<Rightarrow> hstate \<Rightarrow> hstate" where
  "handle_events conf now e w =
     (if \<not> alive (fst w) then w
      else handle_firing_weapon_events conf now e (handle_movement_events conf e w))"

subsection \<open>Sequences of events\<close>

fun run_events :: "conf \<Rightarrow> (int \<times> event) list \<Rightarrow> hstate \<Rightarrow> hstate" where
  "run_events conf [] w = w"
| "run_events conf (te # tes) w = run_events conf tes (handle_events conf (fst te) (snd te) w)"

text \<open>
  What the host's timers can deliver: an event of a user type (at or above
  \<^verbatim>\<open>USEREVENT\<close>) reaches the handler only while the timer table holds a non-zero
  period for its type. The check runs along the sequence, on the table as the
  handlers leave it.
\<close>

fun deliverable :: "conf \<Rightarrow> (int \<times> event) list \<Rightarrow> hstate \<Rightarrow> bool" where
  "deliverable conf [] w = True"
| "deliverable conf (te # tes) w =
     ((etype (snd te) < USEREVENT \<or> snd w (etype (snd te)) \<noteq> 0)
      \<and> deliverable conf tes (handle_events conf (fst te) (snd te) w))"

text \<open>The repeat event that belongs to a movement key.\<close>

definition movement_repeat_event :: "human_ship \<Rightarrow> int \<Rightarrow> int" where
  "movement_repeat_event s k =
     (if k = K_a then rotate_cc_repeat_event s
      else if k = K_d then rotate_cw_repeat_event s
      else acc_repeat_event s)"

section \<open>Updates and the game as a whole\<close>

text \<open>
  \<^verbatim>\<open>update_groups\<close> (lines 57 to 60) calls \<^verbatim>\<open>update\<close> on every sprite of the two groups.
  The projectile classes are not part of \<^verbatim>\<open>ship.py\<close>: their update is a parameter
  that returns the projectile's new state, or \<^verbatim>\<open>None\<close> when it has removed itself.
\<close>

definition group_update :: "(projectile \<Rightarrow> projectile option) \<Rightarrow> projectile list \<Rightarrow> projectile list" where
  "group_update projectile_update g = List.map_filter projectile_update g"

definition update_groups ::
  "(projectile \<Rightarrow> projectile option) \<Rightarrow> 'a base_ship_scheme \<Rightarrow> 'a base_ship_scheme" where
  "update_groups projectile_update s =
     s\<lparr>torpedo_group := group_update projectile_update (torpedo_group s),
       phaser_group := group_update projectile_update (phaser_group s)\<rparr>"

text \<open>
  The game: the ships by object id and the host's timer table. A step is one call
  of \<^verbatim>\<open>handle_events\<close>, \<^verbatim>\<open>update\<close> or \<^verbatim>\<open>update_groups\<close> on one ship.
\<close>

record world =
  ships :: "nat \<Rightarrow> human_ship"
  timer_table :: timers

datatype step =
    HandleEvents nat int event
  | Update nat int "nat list"
  | UpdateGroups nat

record collaborators =
  entity_update :: "entity \<Rightarrow> entity"
  overlap_check :: "human_ship \<Rightarrow> human_ship \<Rightarrow> bool \<times> bool"
  projectile_update :: "projectile \<Rightarrow> projectile option"

fun step_world :: "conf \<Rightarrow> collaborators \<Rightarrow> step \<Rightarrow> world \<Rightarrow> world" where
  "step_world conf c (HandleEvents i now e) w =
     (let r = handle_events conf now e (ships w i, timer_table w)
      in w\<lparr>ships := (ships w)(i := fst r), timer_table := snd r\<rparr>)"
| "step_world conf c (Update i now target_group) w =
     w\<lparr>ships := update (entity_update c) (overlap_check c) now i target_group (ships w)\<rparr>"
| "step_world conf c (UpdateGroups i) w =
     w\<lparr>ships := (ships w)(i := update_groups (projectile_update c) (ships w i))\<rparr>"

fun run :: "conf \<Rightarrow> collaborators \<Rightarrow> step list \<Rightarrow> world \<Rightarrow> world" where
  "run conf c [] w = w"
| "run conf c (x # xs) w = run conf c xs (step_world conf c x w)"

section \<open>Concrete data\<close>

text \<open>Values for the four constants, and a ship of player 0 as the constructors leave it,
  alive and at rest.\<close>

definition example_conf :: conf where
  "example_conf =
     \<lparr>MAX_TORPEDOES_PER_SHIP = 3, MOVEMENT_TIME_DELAY_MS = 100,
      PHASER_FIRE_CD = 150, TORPEDO_FIRE_CD = 150\<rparr>"

definition example_entity :: entity where
  "example_entity =
     \<lparr>entity_type = SHIP, pos = (400, 300), vel = (0, 0), ang = 0,
      rect = \<lparr>rx = 384, ry = 284, rw = 32, rh = 32\<rparr>, alive = True\<rparr>"

definition example_human :: human_ship where
  "example_human = HumanShip_init example_entity 0"

definition no_timers :: timers where
  "no_timers = (\<lambda>ev. 0)"

definition key_event :: "int \<Rightarrow> int \<Rightarrow> event" where
  "key_event ty k = \<lparr>etype = ty, key = k\<rparr>"

text \<open>The example ship after it has left every group.\<close>

definition dead_human :: human_ship where
  "dead_human = example_human\<lparr>alive := False\<rparr>"

text \<open>A timer event has no key; the field is never read for it.\<close>

definition timer_event :: "int \<Rightarrow> event" where
  "timer_event ty = \<lparr>etype = ty, key = 0\<rparr>"

text \<open>Two overlapping ships, used to run the collision response on concrete data.\<close>

definition example_ship :: "int \<Rightarrow> real \<times> real \<Rightarrow> real \<times> real \<Rightarrow> Rect \<Rightarrow> base_ship" where
  "example_ship pid p v r =
     \<lparr>entity_type = SHIP, pos = p, vel = v, ang = 0, rect = r, alive = True,
      player_id = pid, torpedo_group = [], phaser_group = [], phaser = None,
      phaser_last_fired = None, torpedo_last_fired = None, last_collided_ship = None\<rparr>"

definition example_store :: "unit store" where
  "example_store =
     (\<lambda>i. if i = 0
          then example_ship 0 (0, 0) (10, 0) \<lparr>rx = 0, ry = 0, rw = 32, rh = 32\<rparr>
          else example_ship 1 (20, 8) (0, 4) \<lparr>rx = 20, ry = 8, rw = 32, rh = 32\<rparr>)"

text \<open>Rotate-left pressed, released, pressed again, then rotate-right pressed while
  rotate-left is still held.\<close>

definition lock_run :: "(int \<times> event) list" where
  "lock_run =
     [(1000, key_event KEYDOWN K_a), (1050, key_event KEYUP K_a),
      (1200, key_event KEYDOWN K_a), (1250, key_event KEYDOWN K_d)]"

definition lock_state :: hstate where
  "lock_state = run_events example_conf lock_run (example_human, no_timers)"

text \<open>The phaser key pressed at tick 1000 and the first event of its timer (player 0,
  type 32773) handled at tick 1160.\<close>

definition phaser_state :: hstate where
  "phaser_state =
     run_events example_conf [(1000, key_event KEYDOWN K_q), (1160, timer_event 32773)]
       (example_human, no_timers)"

text \<open>A world of such ships, collaborators to run it with, and two sequences of steps:
  the torpedo key held through four timer events (type 32772), and the phaser key held
  through two, each followed by the updates of a frame.\<close>

definition example_world :: world where
  "example_world = \<lparr>ships = (\<lambda>i. example_human), timer_table = no_timers\<rparr>"

definition example_collaborators :: collaborators where
  "example_collaborators =
     \<lparr>entity_update = (\<lambda>e. e\<lparr>pos := (fst (pos e) + fst (vel e), snd (pos e) + snd (vel e))\<rparr>),
      overlap_check = (\<lambda>a b. (True, False)),
      projectile_update = Some\<rparr>"

definition torpedo_steps :: "step list" where
  "torpedo_steps =
     [HandleEvents 0 1000 (key_event KEYDOWN K_e), HandleEvents 0 1150 (timer_event 32772),
      HandleEvents 0 1300 (timer_event 32772), HandleEvents 0 1450 (timer_event 32772),
      HandleEvents 0 1600 (timer_event 32772), UpdateGroups 0, Update 0 1610 [0, 1]]"

definition phaser_steps :: "step list" where
  "phaser_steps =
     [HandleEvents 0 1000 (key_event KEYDOWN K_q), HandleEvents 0 1150 (timer_event 32773),
      HandleEvents 0 1300 (timer_event 32773), UpdateGroups 0, Update 0 1310 [0, 1]]"

text \<open>Ships at the torpedo cap, with the lock flag set, and with both weapons fired at
  tick 1000.\<close>

definition full_human :: human_ship where
  "full_human =
     example_human\<lparr>torpedo_group :=
       [PhotonTorpedo (400, 300) 0 (0, 0), PhotonTorpedo (400, 300) 0 (0, 0),
        PhotonTorpedo (400, 300) 0 (0, 0)],
       torpedo_last_fired := Some 700\<rparr>"

definition locked_human :: human_ship where
  "locked_human = example_human\<lparr>rotate_ccw_lock := True\<rparr>"

definition cooling_human :: human_ship where
  "cooling_human = example_human\<lparr>phaser_last_fired := Some 1000, torpedo_last_fired := Some 1000\<rparr>"

text \<open>Rotate-left held down, and what follows its release: rotate-right pressed, one
  event of its timer (type 32770), rotate-right released.\<close>

definition held_rotate_left :: hstate where
  "held_rotate_left =
     run_events example_conf [(1000, key_event KEYDOWN K_a)] (example_human, no_timers)"

definition after_release :: "(int \<times> event) list" where
  "after_release =
     [(1060, key_event KEYDOWN K_d), (1160, timer_event 32770), (1200, key_event KEYUP K_d)]"

section \<open>Collision response: velocities and positions\<close>

lemma collide_vel_self:
  "sprite \<noteq> self \<Longrightarrow>
   vel (collide chk now self sprite st self) =
     (fst (vel (st self)) * 0.2 + fst (vel (st sprite)) * 0.75,
      snd (vel (st self)) * 0.2 + snd (vel (st sprite)) * 0.75)"
  by (simp add: collide_def Let_def)

lemma collide_vel_other:
  "sprite \<noteq> self \<Longrightarrow>
   vel (collide chk now self sprite st sprite) =
     (fst (vel (st sprite)) * 0.2 + fst (vel (st self)) * 0.75,
      snd (vel (st sprite)) * 0.2 + snd (vel (st self)) * 0.75)"
  by (simp add: collide_def Let_def)

text \<open>
  C1. When the loop of \<^verbatim>\<open>BaseShip.update\<close> meets a distinct ship whose rectangle
  overlaps the updating ship's, the iteration sets, on each axis, the updating ship's
  velocity to 0.2 times its own old velocity plus 0.75 times the other's old velocity,
  and the other ship's velocity to 0.2 times its own old velocity plus 0.75 times the
  updating ship's old velocity.
\<close>

theorem collision_blends_velocities:
  assumes "sprite \<noteq> self"
    and "colliderect (rect (st self)) (rect (st sprite))"
    and "entity_type (st sprite) = SHIP"
  shows "vel (collision_step chk now self sprite st self) =
           (0.2 * fst (vel (st self)) + 0.75 * fst (vel (st sprite)),
            0.2 * snd (vel (st self)) + 0.75 * snd (vel (st sprite)))
       \<and> vel (collision_step chk now self sprite st sprite) =
           (0.2 * fst (vel (st sprite)) + 0.75 * fst (vel (st self)),
            0.2 * snd (vel (st sprite)) + 0.75 * snd (vel (st self)))"
  using assms
  by (simp add: collision_step_def collide_vel_self collide_vel_other mult.commute)

lemma example_store_collides:
  "colliderect (rect (example_store 0)) (rect (example_store (Suc 0)))"
  "entity_type (example_store (Suc 0)) = SHIP"
  by (simp_all add: example_store_def example_ship_def colliderect_def)

theorem collision_blends_velocities_witness:
  "Suc 0 \<noteq> 0
   \<and> colliderect (rect (example_store 0)) (rect (example_store (Suc 0)))
   \<and> entity_type (example_store (Suc 0)) = SHIP
   \<and> vel (collision_step (\<lambda>a b. (True, False)) 1000 0 (Suc 0) example_store 0) = (2, 3)
   \<and> vel (collision_step (\<lambda>a b. (True, False)) 1000 0 (Suc 0) example_store (Suc 0)) = (7.5, 0.8)"
proof -
  have d: "Suc 0 \<noteq> 0" by simp
  note r = collision_blends_velocities
    [OF d example_store_collides, of "\<lambda>a b. (True, False)" 1000]
  have v: "vel (example_store 0) = (10, 0)" "vel (example_store (Suc 0)) = (0, 4)"
    by (simp_all add: example_store_def example_ship_def)
  show ?thesis using r example_store_collides by (simp add: v)
qed

lemma collide_pos_self:
  "sprite \<noteq> self \<Longrightarrow> pos (collide chk now self sprite st self) = pos (st self)"
  by (simp add: collide_def Let_def)

lemma collide_pos_other:
  assumes "sprite \<noteq> self"
    and "chk ((st self)\<lparr>vel := vs, last_collided_ship := Some now\<rparr>) ((st sprite)\<lparr>vel := vo\<rparr>)
           = (overlap_x, overlap_y)"
    and "vs = (fst (vel (st self)) * 0.2 + fst (vel (st sprite)) * 0.75,
               snd (vel (st self)) * 0.2 + snd (vel (st sprite)) * 0.75)"
    and "vo = (fst (vel (st sprite)) * 0.2 + fst (vel (st self)) * 0.75,
               snd (vel (st sprite)) * 0.2 + snd (vel (st self)) * 0.75)"
  shows "pos (collide chk now self sprite st sprite) =
           (if overlap_x then fst (pos (st sprite)) + fst vo else fst (pos (st sprite)),
            if overlap_y then snd (pos (st sprite)) + snd vo else snd (pos (st sprite)))"
  using assms by (simp add: collide_def Let_def)

text \<open>
  C9. In the collision branch of \<^verbatim>\<open>BaseShip.update\<close> only the second ship's position
  is modified: on each axis for which \<open>check_overlapping_sprites\<close> reports overlap, the
  second ship's position is shifted by its own already blended velocity on that axis;
  the first ship's position and the other axes of the second ship's position stay as
  they were.
\<close>

theorem collision_moves_only_second_ship:
  assumes "sprite \<noteq> self"
    and "colliderect (rect (st self)) (rect (st sprite))"
    and "entity_type (st sprite) = SHIP"
    and "vs = (0.2 * fst (vel (st self)) + 0.75 * fst (vel (st sprite)),
               0.2 * snd (vel (st self)) + 0.75 * snd (vel (st sprite)))"
    and "vo = (0.2 * fst (vel (st sprite)) + 0.75 * fst (vel (st self)),
               0.2 * snd (vel (st sprite)) + 0.75 * snd (vel (st self)))"
    and "chk ((st self)\<lparr>vel := vs, last_collided_ship := Some now\<rparr>) ((st sprite)\<lparr>vel := vo\<rparr>)
           = (overlap_x, overlap_y)"
  shows "pos (collision_step chk now self sprite st self) = pos (st self)
       \<and> vel (collision_step chk now self sprite st sprite) = vo
       \<and> pos (collision_step chk now self sprite st sprite) =
           (if overlap_x then fst (pos (st sprite)) + fst vo else fst (pos (st sprite)),
            if overlap_y then snd (pos (st sprite)) + snd vo else snd (pos (st sprite)))"
proof -
  have s: "collision_step chk now self sprite st = collide chk now self sprite st"
    using assms(1-3) by (simp add: collision_step_def)
  have vs': "vs = (fst (vel (st self)) * 0.2 + fst (vel (st sprite)) * 0.75,
                   snd (vel (st self)) * 0.2 + snd (vel (st sprite)) * 0.75)"
    using assms(4) by (simp add: mult.commute)
  have vo': "vo = (fst (vel (st sprite)) * 0.2 + fst (vel (st self)) * 0.75,
                   snd (vel (st sprite)) * 0.2 + snd (vel (st self)) * 0.75)"
    using assms(5) by (simp add: mult.commute)
  have p: "pos (collide chk now self sprite st self) = pos (st self)"
    using assms(1) by (rule collide_pos_self)
  have v: "vel (collide chk now self sprite st sprite) = vo"
    using assms(1) vo' by (simp add: collide_vel_other)
  have q: "pos (collide chk now self sprite st sprite) =
           (if overlap_x then fst (pos (st sprite)) + fst vo else fst (pos (st sprite)),
            if overlap_y then snd (pos (st sprite)) + snd vo else snd (pos (st sprite)))"
    using assms(1) assms(6) vs' vo' by (rule collide_pos_other)
  show ?thesis using p v q by (simp add: s)
qed

theorem collision_moves_only_second_ship_witness:
  "Suc 0 \<noteq> 0
   \<and> colliderect (rect (example_store 0)) (rect (example_store (Suc 0)))
   \<and> entity_type (example_store (Suc 0)) = SHIP
   \<and> pos (collision_step (\<lambda>a b. (True, False)) 1000 0 (Suc 0) example_store 0) = (0, 0)
   \<and> vel (collision_step (\<lambda>a b. (True, False)) 1000 0 (Suc 0) example_store (Suc 0)) = (7.5, 0.8)
   \<and> pos (collision_step (\<lambda>a b. (True, False)) 1000 0 (Suc 0) example_store (Suc 0)) = (27.5, 8)"
proof -
  have d: "Suc 0 \<noteq> 0" by simp
  have v: "vel (example_store 0) = (10, 0)" "vel (example_store (Suc 0)) = (0, 4)"
    and p: "pos (example_store 0) = (0, 0)" "pos (example_store (Suc 0)) = (20, 8)"
    by (simp_all add: example_store_def example_ship_def)
  have vs: "(2, 3) = (0.2 * fst (vel (example_store 0)) + 0.75 * fst (vel (example_store (Suc 0))),
                      0.2 * snd (vel (example_store 0)) + 0.75 * snd (vel (example_store (Suc 0))))"
    by (simp add: v)
  have vo: "(7.5, 0.8) = (0.2 * fst (vel (example_store (Suc 0))) + 0.75 * fst (vel (example_store 0)),
                          0.2 * snd (vel (example_store (Suc 0))) + 0.75 * snd (vel (example_store 0)))"
    by (simp add: v)
  have c: "(\<lambda>a b. (True, False))
             ((example_store 0)\<lparr>vel := (2, 3), last_collided_ship := Some 1000\<rparr>)
             ((example_store (Suc 0))\<lparr>vel := (7.5, 0.8)\<rparr>) = (True, False)"
    by simp
  note r = collision_moves_only_second_ship [OF d example_store_collides vs vo c]
  show ?thesis using r example_store_collides by (simp add: p)
qed

section \<open>Event handling: what each handler leaves alone\<close>

lemmas event_consts = KEYDOWN_def KEYUP_def USEREVENT_def K_a_def K_d_def K_e_def K_q_def K_s_def
lemmas repeat_events = rotate_cc_repeat_event_def rotate_cw_repeat_event_def acc_repeat_event_def
  fire_torpedoes_repeat_event_def fire_phaser_repeat_event_def
lemmas movement_defs = handle_movement_events_def movement_keydown_def movement_keyup_def
  rotate_cc_repeat_def rotate_cw_repeat_def acc_repeat_def
lemmas firing_defs = handle_firing_weapon_events_def firing_keydown_def firing_keyup_def
  fire_phaser_repeat_def fire_torpedoes_repeat_def

lemma movement_keeps_weapons:
  "torpedo_group (fst (handle_movement_events conf e w)) = torpedo_group (fst w)"
  "phaser_group (fst (handle_movement_events conf e w)) = phaser_group (fst w)"
  "phaser (fst (handle_movement_events conf e w)) = phaser (fst w)"
  "phaser_last_fired (fst (handle_movement_events conf e w)) = phaser_last_fired (fst w)"
  "torpedo_last_fired (fst (handle_movement_events conf e w)) = torpedo_last_fired (fst w)"
  "player_id (fst (handle_movement_events conf e w)) = player_id (fst w)"
  "alive (fst (handle_movement_events conf e w)) = alive (fst w)"
  by (simp_all add: movement_defs Let_def repeat_events)

lemma firing_keeps_motion:
  "player_id (fst (handle_firing_weapon_events conf now e w)) = player_id (fst w)"
  "alive (fst (handle_firing_weapon_events conf now e w)) = alive (fst w)"
  "ang (fst (handle_firing_weapon_events conf now e w)) = ang (fst w)"
  "vel (fst (handle_firing_weapon_events conf now e w)) = vel (fst w)"
  "pos (fst (handle_firing_weapon_events conf now e w)) = pos (fst w)"
  "rotate_ccw_lock (fst (handle_firing_weapon_events conf now e w)) = rotate_ccw_lock (fst w)"
  by (simp_all add: firing_defs Let_def repeat_events)

lemma firing_torpedo_bound:
  "int (length (torpedo_group (fst w))) \<le> MAX_TORPEDOES_PER_SHIP conf \<Longrightarrow>
   int (length (torpedo_group (fst (handle_firing_weapon_events conf now e w))))
     \<le> MAX_TORPEDOES_PER_SHIP conf"
  by (simp add: firing_defs Let_def repeat_events group_add_def)

lemma firing_torpedo_growth:
  "length (torpedo_group (fst w)) < length (torpedo_group (fst (handle_firing_weapon_events conf now e w)))
   \<Longrightarrow> int (length (torpedo_group (fst w))) < MAX_TORPEDOES_PER_SHIP conf"
  by (simp add: firing_defs Let_def repeat_events group_add_def split: if_splits)

lemma firing_phaser_bound:
  "length (phaser_group (fst w)) \<le> 1 \<Longrightarrow>
   length (phaser_group (fst (handle_firing_weapon_events conf now e w))) \<le> 1"
  by (simp add: firing_defs Let_def repeat_events group_single_add_def)


lemma collide_keeps_groups:
  "torpedo_group (collide chk now self sp st i) = torpedo_group (st i)"
  "phaser_group (collide chk now self sp st i) = phaser_group (st i)"
  by (simp_all add: collide_def Let_def)

lemma collision_step_keeps_groups:
  "torpedo_group (collision_step chk now self sp st i) = torpedo_group (st i)"
  "phaser_group (collision_step chk now self sp st i) = phaser_group (st i)"
  by (simp_all add: collision_step_def collide_keeps_groups)

lemma collision_loop_keeps_groups:
  "torpedo_group (collision_loop chk now self sps st i) = torpedo_group (st i)
   \<and> phaser_group (collision_loop chk now self sps st i) = phaser_group (st i)"
  by (induction sps arbitrary: st) (simp_all add: collision_step_keeps_groups)

lemma update_keeps_groups:
  "torpedo_group (update eu chk now self g st i) = torpedo_group (st i)"
  "phaser_group (update eu chk now self g st i) = phaser_group (st i)"
  by (simp_all add: update_def collision_loop_keeps_groups super_update_def Let_def)

lemma length_group_update: "length (group_update f g) \<le> length g"
  by (induction g) (simp_all add: group_update_def List.map_filter_simps split: option.splits)

lemma handle_events_torpedo_bound:
  "int (length (torpedo_group (fst w))) \<le> MAX_TORPEDOES_PER_SHIP conf \<Longrightarrow>
   int (length (torpedo_group (fst (handle_events conf now e w)))) \<le> MAX_TORPEDOES_PER_SHIP conf"
  by (simp add: handle_events_def firing_torpedo_bound movement_keeps_weapons)

lemma handle_events_phaser_bound:
  "length (phaser_group (fst w)) \<le> 1 \<Longrightarrow>
   length (phaser_group (fst (handle_events conf now e w))) \<le> 1"
  using firing_phaser_bound [of "handle_movement_events conf e w" conf now e]
  by (simp add: handle_events_def movement_keeps_weapons)

lemma step_world_torpedo_bound:
  assumes "\<forall>i. int (length (torpedo_group (ships w i))) \<le> MAX_TORPEDOES_PER_SHIP conf"
  shows "\<forall>i. int (length (torpedo_group (ships (step_world conf c x w) i))) \<le> MAX_TORPEDOES_PER_SHIP conf"
proof (cases x)
  case (HandleEvents j now e)
  have "int (length (torpedo_group (fst (handle_events conf now e (ships w j, timer_table w)))))
          \<le> MAX_TORPEDOES_PER_SHIP conf"
    using assms by (intro handle_events_torpedo_bound) simp
  with assms HandleEvents show ?thesis by (simp add: Let_def)
next
  case (Update j now g)
  with assms show ?thesis by (simp add: update_keeps_groups)
next
  case (UpdateGroups j)
  have "int (length (group_update (projectile_update c) (torpedo_group (ships w j))))
          \<le> int (length (torpedo_group (ships w j)))"
    using length_group_update by simp
  also have "\<dots> \<le> MAX_TORPEDOES_PER_SHIP conf" using assms by simp
  finally show ?thesis using assms UpdateGroups by (simp add: update_groups_def)
qed

lemma run_torpedo_bound:
  "\<forall>i. int (length (torpedo_group (ships w i))) \<le> MAX_TORPEDOES_PER_SHIP conf \<Longrightarrow>
   \<forall>i. int (length (torpedo_group (ships (run conf c xs w) i))) \<le> MAX_TORPEDOES_PER_SHIP conf"
proof (induction xs arbitrary: w)
  case Nil
  then show ?case by simp
next
  case (Cons x xs)
  from Cons.prems have "\<forall>i. int (length (torpedo_group (ships (step_world conf c x w) i)))
      \<le> MAX_TORPEDOES_PER_SHIP conf"
    by (rule step_world_torpedo_bound)
  then show ?case using Cons.IH by simp
qed

lemma step_world_phaser_bound:
  assumes "\<forall>i. length (phaser_group (ships w i)) \<le> 1"
  shows "\<forall>i. length (phaser_group (ships (step_world conf c x w) i)) \<le> 1"
proof (cases x)
  case (HandleEvents j now e)
  have "length (phaser_group (fst (handle_events conf now e (ships w j, timer_table w)))) \<le> 1"
    using assms by (intro handle_events_phaser_bound) simp
  with assms HandleEvents show ?thesis by (simp add: Let_def)
next
  case (Update j now g)
  with assms show ?thesis by (simp add: update_keeps_groups)
next
  case (UpdateGroups j)
  have "length (group_update (projectile_update c) (phaser_group (ships w j)))
          \<le> length (phaser_group (ships w j))"
    by (rule length_group_update)
  also have "\<dots> \<le> 1" using assms by simp
  finally show ?thesis using assms UpdateGroups by (simp add: update_groups_def)
qed

lemma run_phaser_bound:
  "\<forall>i. length (phaser_group (ships w i)) \<le> 1 \<Longrightarrow>
   \<forall>i. length (phaser_group (ships (run conf c xs w) i)) \<le> 1"
proof (induction xs arbitrary: w)
  case Nil
  then show ?case by simp
next
  case (Cons x xs)
  from Cons.prems have "\<forall>i. length (phaser_group (ships (step_world conf c x w) i)) \<le> 1"
    by (rule step_world_phaser_bound)
  then show ?case using Cons.IH by simp
qed

section \<open>Dead ships\<close>

text \<open>
  C10. For every event, \<^verbatim>\<open>handle_events\<close> on a ship that is not alive returns at once:
  the ship (angle, velocity, lock flag, projectile groups, last-fired timestamps) and
  the timer table are exactly what they were.
\<close>
theorem dead_ship_ignores_events:
  "\<not> alive (fst w) \<Longrightarrow> handle_events conf now e w = w"
  by (simp add: handle_events_def)


theorem dead_ship_ignores_events_witness:
  "\<not> alive (fst (dead_human, no_timers))
   \<and> handle_events example_conf 1000 (key_event KEYDOWN K_a) (dead_human, no_timers)
       = (dead_human, no_timers)"
proof -
  have h: "\<not> alive (fst (dead_human, no_timers))" by (simp add: dead_human_def)
  show ?thesis using h dead_ship_ignores_events [OF h] by simp
qed

section \<open>Key-down on the movement keys\<close>

lemma movement_keydown_a:
  assumes "etype e = KEYDOWN" "key e = K_a" "0 \<le> player_id s"
  shows "handle_movement_events conf e (s, tm) =
          (s\<lparr>rotate_ccw_lock := True, ang := ang s - 22.5\<rparr>,
           set_timer (rotate_cc_repeat_event s) (MOVEMENT_TIME_DELAY_MS conf) tm)"
  using assms
  by (simp add: handle_movement_events_def movement_keydown_def Let_def event_consts repeat_events)

lemma movement_keydown_d:
  assumes "etype e = KEYDOWN" "key e = K_d" "0 \<le> player_id s"
  shows "handle_movement_events conf e (s, tm) =
          (s\<lparr>rotate_ccw_lock := False, ang := ang s + 22.5\<rparr>,
           set_timer (rotate_cw_repeat_event s) (MOVEMENT_TIME_DELAY_MS conf) tm)"
  using assms
  by (simp add: handle_movement_events_def movement_keydown_def Let_def event_consts repeat_events)

lemma movement_keydown_s:
  assumes "etype e = KEYDOWN" "key e = K_s" "0 \<le> player_id s"
  shows "handle_movement_events conf e (s, tm) =
          (s\<lparr>vel := (fst (vel s) + cos (ang s * pi / 180), snd (vel s) + sin (ang s * pi / 180))\<rparr>,
           set_timer (acc_repeat_event s) (MOVEMENT_TIME_DELAY_MS conf) tm)"
  using assms
  by (simp add: handle_movement_events_def movement_keydown_def Let_def event_consts repeat_events)

lemma firing_ignores_other_keydown:
  assumes "etype e = KEYDOWN" "key e \<noteq> K_q" "key e \<noteq> K_e" "0 \<le> player_id (fst w)"
  shows "handle_firing_weapon_events conf now e w = w"
  using assms
  by (simp add: handle_firing_weapon_events_def firing_keydown_def Let_def event_consts repeat_events)

lemma movement_key_not_weapon_key:
  "k = K_a \<or> k = K_d \<or> k = K_s \<Longrightarrow> k \<noteq> K_q \<and> k \<noteq> K_e"
  by (auto simp: event_consts)

lemma handle_events_movement_keydown:
  assumes "etype e = KEYDOWN" "key e = K_a \<or> key e = K_d \<or> key e = K_s"
    "0 \<le> player_id s" "alive s"
  shows "handle_events conf now e (s, tm) = handle_movement_events conf e (s, tm)"
proof -
  have "key e \<noteq> K_q \<and> key e \<noteq> K_e" using assms(2) by (rule movement_key_not_weapon_key)
  moreover have "0 \<le> player_id (fst (handle_movement_events conf e (s, tm)))"
    using assms(3) by (simp add: movement_keeps_weapons)
  ultimately have "handle_firing_weapon_events conf now e (handle_movement_events conf e (s, tm))
      = handle_movement_events conf e (s, tm)"
    using assms(1) by (intro firing_ignores_other_keydown) simp_all
  then show ?thesis using assms(4) by (simp add: handle_events_def)
qed

text \<open>
  C6. A key-down event for a rotate key changes the angle by exactly 22.5 (down for
  rotate-left, up for rotate-right) and sets that key's repeat timer to the movement
  interval; a key-down for the thrust key adds (cos, sin) of the heading at the time of
  the event (in degrees) to the velocity and sets the thrust repeat timer. For a live
  ship \<^verbatim>\<open>handle_events\<close> does exactly what \<^verbatim>\<open>_handle_movement_events\<close> does on these keys.
\<close>

theorem keydown_applies_one_increment:
  assumes "etype e = KEYDOWN" and "0 \<le> player_id s"
  shows "(key e = K_a \<longrightarrow>
            ang (fst (handle_movement_events conf e (s, tm))) = ang s - 22.5
          \<and> snd (handle_movement_events conf e (s, tm)) (rotate_cc_repeat_event s)
              = MOVEMENT_TIME_DELAY_MS conf)
       \<and> (key e = K_d \<longrightarrow>
            ang (fst (handle_movement_events conf e (s, tm))) = ang s + 22.5
          \<and> snd (handle_movement_events conf e (s, tm)) (rotate_cw_repeat_event s)
              = MOVEMENT_TIME_DELAY_MS conf)
       \<and> (key e = K_s \<longrightarrow>
            vel (fst (handle_movement_events conf e (s, tm)))
              = (fst (vel s) + cos (ang s * pi / 180), snd (vel s) + sin (ang s * pi / 180))
          \<and> snd (handle_movement_events conf e (s, tm)) (acc_repeat_event s)
              = MOVEMENT_TIME_DELAY_MS conf)
       \<and> (alive s \<and> (key e = K_a \<or> key e = K_d \<or> key e = K_s) \<longrightarrow>
            handle_events conf now e (s, tm) = handle_movement_events conf e (s, tm))"
proof (intro conjI impI)
  assume "key e = K_a"
  then have "handle_movement_events conf e (s, tm) =
          (s\<lparr>rotate_ccw_lock := True, ang := ang s - 22.5\<rparr>,
           set_timer (rotate_cc_repeat_event s) (MOVEMENT_TIME_DELAY_MS conf) tm)"
    using assms by (simp add: movement_keydown_a)
  then show "ang (fst (handle_movement_events conf e (s, tm))) = ang s - 22.5"
    and "snd (handle_movement_events conf e (s, tm)) (rotate_cc_repeat_event s)
              = MOVEMENT_TIME_DELAY_MS conf"
    by (simp_all add: set_timer_def)
next
  assume "key e = K_d"
  then have "handle_movement_events conf e (s, tm) =
          (s\<lparr>rotate_ccw_lock := False, ang := ang s + 22.5\<rparr>,
           set_timer (rotate_cw_repeat_event s) (MOVEMENT_TIME_DELAY_MS conf) tm)"
    using assms by (simp add: movement_keydown_d)
  then show "ang (fst (handle_movement_events conf e (s, tm))) = ang s + 22.5"
    and "snd (handle_movement_events conf e (s, tm)) (rotate_cw_repeat_event s)
              = MOVEMENT_TIME_DELAY_MS conf"
    by (simp_all add: set_timer_def)
next
  assume "key e = K_s"
  then have "handle_movement_events conf e (s, tm) =
          (s\<lparr>vel := (fst (vel s) + cos (ang s * pi / 180), snd (vel s) + sin (ang s * pi / 180))\<rparr>,
           set_timer (acc_repeat_event s) (MOVEMENT_TIME_DELAY_MS conf) tm)"
    using assms by (simp add: movement_keydown_s)
  then show "vel (fst (handle_movement_events conf e (s, tm)))
              = (fst (vel s) + cos (ang s * pi / 180), snd (vel s) + sin (ang s * pi / 180))"
    and "snd (handle_movement_events conf e (s, tm)) (acc_repeat_event s)
              = MOVEMENT_TIME_DELAY_MS conf"
    by (simp_all add: set_timer_def)
next
  assume "alive s \<and> (key e = K_a \<or> key e = K_d \<or> key e = K_s)"
  then show "handle_events conf now e (s, tm) = handle_movement_events conf e (s, tm)"
    using assms by (simp add: handle_events_movement_keydown)
qed

lemma example_human_fields:
  "player_id example_human = 0" "alive example_human" "ang example_human = 0"
  "vel example_human = (0, 0)" "pos example_human = (400, 300)"
  "\<not> rotate_ccw_lock example_human" "torpedo_group example_human = []"
  "phaser_group example_human = []" "phaser_last_fired example_human = None"
  "torpedo_last_fired example_human = None" "phaser example_human = None"
  by (simp_all add: example_human_def HumanShip_init_def example_entity_def)

theorem keydown_applies_one_increment_witness:
  "etype (key_event KEYDOWN K_a) = KEYDOWN \<and> etype (key_event KEYDOWN K_d) = KEYDOWN
   \<and> etype (key_event KEYDOWN K_s) = KEYDOWN \<and> 0 \<le> player_id example_human
   \<and> alive example_human
   \<and> ang (fst (handle_movement_events example_conf (key_event KEYDOWN K_a) (example_human, no_timers)))
       = - 22.5
   \<and> snd (handle_movement_events example_conf (key_event KEYDOWN K_a) (example_human, no_timers))
       (rotate_cc_repeat_event example_human) = 100
   \<and> ang (fst (handle_movement_events example_conf (key_event KEYDOWN K_d) (example_human, no_timers)))
       = 22.5
   \<and> snd (handle_movement_events example_conf (key_event KEYDOWN K_d) (example_human, no_timers))
       (rotate_cw_repeat_event example_human) = 100
   \<and> vel (fst (handle_movement_events example_conf (key_event KEYDOWN K_s) (example_human, no_timers)))
       = (1, 0)
   \<and> snd (handle_movement_events example_conf (key_event KEYDOWN K_s) (example_human, no_timers))
       (acc_repeat_event example_human) = 100
   \<and> handle_events example_conf 1000 (key_event KEYDOWN K_s) (example_human, no_timers)
       = handle_movement_events example_conf (key_event KEYDOWN K_s) (example_human, no_timers)"
proof -
  have t: "etype (key_event KEYDOWN K_a) = KEYDOWN" "etype (key_event KEYDOWN K_d) = KEYDOWN"
    "etype (key_event KEYDOWN K_s) = KEYDOWN"
    and k: "key (key_event KEYDOWN K_a) = K_a" "key (key_event KEYDOWN K_d) = K_d"
    "key (key_event KEYDOWN K_s) = K_s"
    by (simp_all add: key_event_def)
  have p: "0 \<le> player_id example_human" by (simp add: example_human_fields)
  note a = keydown_applies_one_increment [OF t(1) p, of example_conf no_timers 1000]
  note d = keydown_applies_one_increment [OF t(2) p, of example_conf no_timers 1000]
  note s = keydown_applies_one_increment [OF t(3) p, of example_conf no_timers 1000]
  show ?thesis using a d s t p
    by (simp add: k example_human_fields example_conf_def)
qed

section \<open>Repeat events of the rotate keys\<close>

lemma py_mod_in_range: "0 \<le> x \<Longrightarrow> x < 360 \<Longrightarrow> py_mod x 360 = x"
proof -
  assume a: "0 \<le> x" "x < 360"
  have "\<lfloor>x / 360\<rfloor> = 0" using a by (simp add: floor_eq_iff)
  then show ?thesis by (simp add: py_mod_def)
qed

lemma repeat_event_not_key:
  "0 \<le> player_id s \<Longrightarrow> rotate_cc_repeat_event s \<noteq> KEYDOWN \<and> rotate_cc_repeat_event s \<noteq> KEYUP
     \<and> rotate_cw_repeat_event s \<noteq> KEYDOWN \<and> rotate_cw_repeat_event s \<noteq> KEYUP
     \<and> acc_repeat_event s \<noteq> KEYDOWN \<and> acc_repeat_event s \<noteq> KEYUP
     \<and> fire_torpedoes_repeat_event s \<noteq> KEYDOWN \<and> fire_torpedoes_repeat_event s \<noteq> KEYUP
     \<and> fire_phaser_repeat_event s \<noteq> KEYDOWN \<and> fire_phaser_repeat_event s \<noteq> KEYUP"
  by (simp add: repeat_events event_consts)

lemma movement_cc_repeat:
  assumes "etype e = rotate_cc_repeat_event s" "0 \<le> player_id s"
  shows "handle_movement_events conf e (s, tm) = (rotate_cc_repeat s, tm)"
  using assms
  by (simp add: handle_movement_events_def Let_def repeat_events event_consts rotate_cc_repeat_def)

lemma movement_cw_repeat:
  assumes "etype e = rotate_cw_repeat_event s" "0 \<le> player_id s"
  shows "handle_movement_events conf e (s, tm) = (rotate_cw_repeat s, tm)"
  using assms
  by (simp add: handle_movement_events_def Let_def repeat_events event_consts rotate_cw_repeat_def)

lemma handle_events_ang:
  "alive (fst w) \<Longrightarrow>
   ang (fst (handle_events conf now e w)) = ang (fst (handle_movement_events conf e w))"
  by (simp add: handle_events_def firing_keeps_motion)

lemma handle_events_lock:
  "alive (fst w) \<Longrightarrow>
   rotate_ccw_lock (fst (handle_events conf now e w))
     = rotate_ccw_lock (fst (handle_movement_events conf e w))"
  by (simp add: handle_events_def firing_keeps_motion)

text \<open>
  C7, as the code has it. A rotate-left repeat event subtracts 22.5 from the angle only
  when the lock flag is set, a rotate-right repeat event adds 22.5 only when it is
  clear, so one repeat event applies at most one rotation, and neither changes the
  flag. Either event then reduces the angle modulo 360: when the lock excludes the
  rotation the angle keeps its value if it lies in [0, 360) and is replaced by its
  residue otherwise.
\<close>

theorem rotation_lock_selects_direction:
  assumes "alive s" and "0 \<le> player_id s"
  shows "(etype e = rotate_cc_repeat_event s \<longrightarrow>
            ang (fst (handle_events conf now e (s, tm)))
              = py_mod (if rotate_ccw_lock s then ang s - 22.5 else ang s) 360
          \<and> rotate_ccw_lock (fst (handle_events conf now e (s, tm))) = rotate_ccw_lock s)
       \<and> (etype e = rotate_cw_repeat_event s \<longrightarrow>
            ang (fst (handle_events conf now e (s, tm)))
              = py_mod (if rotate_ccw_lock s then ang s else ang s + 22.5) 360
          \<and> rotate_ccw_lock (fst (handle_events conf now e (s, tm))) = rotate_ccw_lock s)
       \<and> (etype e = rotate_cc_repeat_event s \<and> \<not> rotate_ccw_lock s \<and> 0 \<le> ang s \<and> ang s < 360 \<longrightarrow>
            ang (fst (handle_events conf now e (s, tm))) = ang s)
       \<and> (etype e = rotate_cw_repeat_event s \<and> rotate_ccw_lock s \<and> 0 \<le> ang s \<and> ang s < 360 \<longrightarrow>
            ang (fst (handle_events conf now e (s, tm))) = ang s)"
proof -
  have cc: "etype e = rotate_cc_repeat_event s \<Longrightarrow>
      ang (fst (handle_events conf now e (s, tm)))
        = py_mod (if rotate_ccw_lock s then ang s - 22.5 else ang s) 360
      \<and> rotate_ccw_lock (fst (handle_events conf now e (s, tm))) = rotate_ccw_lock s"
    using assms
    by (simp add: handle_events_ang handle_events_lock movement_cc_repeat rotate_cc_repeat_def)
  have cw: "etype e = rotate_cw_repeat_event s \<Longrightarrow>
      ang (fst (handle_events conf now e (s, tm)))
        = py_mod (if rotate_ccw_lock s then ang s else ang s + 22.5) 360
      \<and> rotate_ccw_lock (fst (handle_events conf now e (s, tm))) = rotate_ccw_lock s"
    using assms
    by (simp add: handle_events_ang handle_events_lock movement_cw_repeat rotate_cw_repeat_def)
  show ?thesis using cc cw by (simp add: py_mod_in_range)
qed

lemmas handler_defs = handle_events_def movement_defs firing_defs Let_def
  check_phaser_on_cooldown_def check_torpedo_on_cooldown_def group_add_def group_single_add_def
  set_timer_def
lemmas example_defs = example_human_def HumanShip_init_def example_entity_def example_conf_def
  key_event_def timer_event_def no_timers_def

lemma lock_state_eq:
  "lock_state =
     (example_human\<lparr>ang := - 22.5, rotate_ccw_lock := False\<rparr>,
      no_timers(32769 := 100, 32770 := 100))"
  by (simp add: lock_state_def lock_run_def handler_defs example_defs event_consts repeat_events)

text \<open>
  C7 as stated fails. Press rotate-left, release it, press it again and press
  rotate-right while it is held: the angle is -22.5 (key-down does not reduce it), the
  lock flag is clear and the rotate-left timer runs. Its next repeat event leaves the
  flag clear and still changes the angle, to 337.5.
\<close>

theorem cc_repeat_changes_angle_without_lock:
  "\<not> rotate_ccw_lock (fst lock_state)
   \<and> snd lock_state (rotate_cc_repeat_event (fst lock_state)) \<noteq> 0
   \<and> etype (timer_event 32769) = rotate_cc_repeat_event (fst lock_state)
   \<and> ang (fst lock_state) = - 22.5
   \<and> ang (fst (handle_events example_conf 1300 (timer_event 32769) lock_state)) = 337.5
   \<and> ang (fst (handle_events example_conf 1300 (timer_event 32769) lock_state))
       \<noteq> ang (fst lock_state)"
  by (simp add: lock_state_eq handler_defs example_defs event_consts repeat_events py_mod_def)

section \<open>Firing at the torpedo cap\<close>

lemma movement_ignores_weapon_keydown:
  assumes "etype e = KEYDOWN" "key e = K_e \<or> key e = K_q" "0 \<le> player_id (fst w)"
  shows "handle_movement_events conf e w = w"
proof -
  have k: "key e \<noteq> K_a" "key e \<noteq> K_d" "key e \<noteq> K_s"
    using assms(2) by (auto simp: event_consts)
  show ?thesis using assms(1,3) k
    by (simp add: handle_movement_events_def movement_keydown_def Let_def event_consts repeat_events)
qed

lemma movement_ignores_weapon_repeat:
  assumes "etype e = fire_torpedoes_repeat_event (fst w) \<or> etype e = fire_phaser_repeat_event (fst w)"
    and "0 \<le> player_id (fst w)"
  shows "handle_movement_events conf e w = w"
proof -
  have t: "etype e \<noteq> KEYDOWN" "etype e \<noteq> KEYUP" "etype e \<noteq> rotate_cc_repeat_event (fst w)"
    "etype e \<noteq> rotate_cw_repeat_event (fst w)" "etype e \<noteq> acc_repeat_event (fst w)"
    using assms by (auto simp: event_consts repeat_events)
  show ?thesis using t by (simp add: handle_movement_events_def Let_def)
qed

lemma firing_keydown_e_at_cap:
  assumes "MAX_TORPEDOES_PER_SHIP conf \<le> int (length (torpedo_group s))"
    and "0 \<le> player_id s" and "etype e = KEYDOWN" and "key e = K_e"
  shows "handle_firing_weapon_events conf now e (s, tm)
           = (s, set_timer (fire_torpedoes_repeat_event s) (TORPEDO_FIRE_CD conf) tm)"
  using assms
  by (simp add: firing_defs Let_def event_consts repeat_events)

lemma firing_torpedo_repeat_at_cap:
  assumes "MAX_TORPEDOES_PER_SHIP conf \<le> int (length (torpedo_group s))"
    and "0 \<le> player_id s" and "etype e = fire_torpedoes_repeat_event s"
  shows "handle_firing_weapon_events conf now e (s, tm) = (s, tm)"
  using assms
  by (simp add: firing_defs Let_def event_consts repeat_events)

text \<open>
  C8. A torpedo fire attempted at the cap, by key-down or by the repeat event, is
  suppressed without any signal: the handlers return, and the ship they return is the
  ship they were given (no torpedo added, timestamps as they were). Only the timer
  table, which is not part of the ship, is written by the key-down.
\<close>

theorem torpedo_cap_suppresses_fire:
  assumes "MAX_TORPEDOES_PER_SHIP conf \<le> int (length (torpedo_group s))"
    and "0 \<le> player_id s"
    and "(etype e = KEYDOWN \<and> key e = K_e) \<or> etype e = fire_torpedoes_repeat_event s"
  shows "fst (handle_firing_weapon_events conf now e (s, tm)) = s
       \<and> fst (handle_events conf now e (s, tm)) = s"
proof -
  have f: "fst (handle_firing_weapon_events conf now e (s, tm)) = s"
    using assms(3)
  proof
    assume "etype e = KEYDOWN \<and> key e = K_e"
    then show ?thesis using assms(1,2) by (simp add: firing_keydown_e_at_cap)
  next
    assume "etype e = fire_torpedoes_repeat_event s"
    then show ?thesis using assms(1,2) by (simp add: firing_torpedo_repeat_at_cap)
  qed
  have m: "handle_movement_events conf e (s, tm) = (s, tm)"
    using assms(3)
  proof
    assume "etype e = KEYDOWN \<and> key e = K_e"
    then show ?thesis using assms(2) by (intro movement_ignores_weapon_keydown) simp_all
  next
    assume "etype e = fire_torpedoes_repeat_event s"
    then show ?thesis using assms(2) by (intro movement_ignores_weapon_repeat) simp_all
  qed
  show ?thesis using f m by (simp add: handle_events_def)
qed

section \<open>Cooldown\<close>

lemma phaser_cooldown_blocks:
  assumes "phaser_last_fired s = Some T" "T \<noteq> 0" "now \<le> T + PHASER_FIRE_CD conf"
  shows "check_phaser_on_cooldown conf now s"
  using assms by (simp add: check_phaser_on_cooldown_def Let_def)

lemma torpedo_cooldown_blocks:
  assumes "torpedo_last_fired s = Some T" "T \<noteq> 0" "now \<le> T + TORPEDO_FIRE_CD conf"
  shows "check_torpedo_on_cooldown conf now s"
  using assms by (simp add: check_torpedo_on_cooldown_def Let_def)

lemma firing_phaser_on_cooldown:
  assumes "check_phaser_on_cooldown conf now (fst w)"
    and "etype e \<noteq> fire_phaser_repeat_event (fst w)"
  shows "phaser_last_fired (fst (handle_firing_weapon_events conf now e w)) = phaser_last_fired (fst w)
       \<and> phaser (fst (handle_firing_weapon_events conf now e w)) = phaser (fst w)
       \<and> phaser_group (fst (handle_firing_weapon_events conf now e w)) = phaser_group (fst w)"
  using assms
  by (simp add: firing_defs Let_def repeat_events check_phaser_on_cooldown_def)

lemma firing_torpedo_on_cooldown:
  assumes "check_torpedo_on_cooldown conf now (fst w)"
    and "etype e \<noteq> fire_torpedoes_repeat_event (fst w)"
  shows "torpedo_last_fired (fst (handle_firing_weapon_events conf now e w)) = torpedo_last_fired (fst w)
       \<and> torpedo_group (fst (handle_firing_weapon_events conf now e w)) = torpedo_group (fst w)"
  using assms
  by (simp add: firing_defs Let_def repeat_events check_torpedo_on_cooldown_def)

lemma firing_phaser_repeat_fires:
  assumes "etype e = fire_phaser_repeat_event (fst w)"
  shows "phaser_last_fired (fst (handle_firing_weapon_events conf now e w)) = Some now"
  using assms
  by (simp add: firing_defs Let_def repeat_events)

lemma firing_torpedo_repeat_fires:
  assumes "etype e = fire_torpedoes_repeat_event (fst w)"
    and "0 \<le> player_id (fst w)"
    and "int (length (torpedo_group (fst w))) < MAX_TORPEDOES_PER_SHIP conf"
  shows "torpedo_last_fired (fst (handle_firing_weapon_events conf now e w)) = Some now"
  using assms
  by (simp add: firing_defs Let_def repeat_events event_consts)

lemma handle_events_weapon_fields:
  "alive (fst w) \<Longrightarrow>
   handle_events conf now e w = handle_firing_weapon_events conf now e (handle_movement_events conf e w)"
  by (simp add: handle_events_def)

lemma handle_events_phaser_on_cooldown:
  assumes "phaser_last_fired s = Some T" "T \<noteq> 0" "now \<le> T + PHASER_FIRE_CD conf"
    and "etype e \<noteq> fire_phaser_repeat_event s"
  shows "phaser_last_fired (fst (handle_events conf now e (s, tm))) = Some T
       \<and> phaser (fst (handle_events conf now e (s, tm))) = phaser s
       \<and> phaser_group (fst (handle_events conf now e (s, tm))) = phaser_group s"
proof (cases "alive s")
  case False
  then show ?thesis using assms(1) by (simp add: handle_events_def)
next
  case True
  let ?m = "handle_movement_events conf e (s, tm)"
  have l: "phaser_last_fired (fst ?m) = Some T" using assms(1) by (simp add: movement_keeps_weapons)
  have c: "check_phaser_on_cooldown conf now (fst ?m)"
    using l assms(2,3) by (rule phaser_cooldown_blocks)
  have n: "etype e \<noteq> fire_phaser_repeat_event (fst ?m)"
    using assms(4) by (simp add: fire_phaser_repeat_event_def movement_keeps_weapons)
  from firing_phaser_on_cooldown [OF c n] l True show ?thesis
    by (simp add: handle_events_def movement_keeps_weapons)
qed

lemma handle_events_torpedo_on_cooldown:
  assumes "torpedo_last_fired s = Some T" "T \<noteq> 0" "now \<le> T + TORPEDO_FIRE_CD conf"
    and "etype e \<noteq> fire_torpedoes_repeat_event s"
  shows "torpedo_last_fired (fst (handle_events conf now e (s, tm))) = Some T
       \<and> torpedo_group (fst (handle_events conf now e (s, tm))) = torpedo_group s"
proof (cases "alive s")
  case False
  then show ?thesis using assms(1) by (simp add: handle_events_def)
next
  case True
  let ?m = "handle_movement_events conf e (s, tm)"
  have l: "torpedo_last_fired (fst ?m) = Some T" using assms(1) by (simp add: movement_keeps_weapons)
  have c: "check_torpedo_on_cooldown conf now (fst ?m)"
    using l assms(2,3) by (rule torpedo_cooldown_blocks)
  have n: "etype e \<noteq> fire_torpedoes_repeat_event (fst ?m)"
    using assms(4) by (simp add: fire_torpedoes_repeat_event_def movement_keeps_weapons)
  from firing_torpedo_on_cooldown [OF c n] l True show ?thesis
    by (simp add: handle_events_def movement_keeps_weapons)
qed

lemma handle_events_phaser_repeat_fires:
  assumes "alive s" "etype e = fire_phaser_repeat_event s"
  shows "phaser_last_fired (fst (handle_events conf now e (s, tm))) = Some now"
proof -
  let ?m = "handle_movement_events conf e (s, tm)"
  have "etype e = fire_phaser_repeat_event (fst ?m)"
    using assms(2) by (simp add: fire_phaser_repeat_event_def movement_keeps_weapons)
  then have "phaser_last_fired (fst (handle_firing_weapon_events conf now e ?m)) = Some now"
    by (rule firing_phaser_repeat_fires)
  then show ?thesis using assms(1) by (simp add: handle_events_def)
qed

lemma handle_events_torpedo_repeat_fires:
  assumes "alive s" "0 \<le> player_id s" "etype e = fire_torpedoes_repeat_event s"
    and "int (length (torpedo_group s)) < MAX_TORPEDOES_PER_SHIP conf"
  shows "torpedo_last_fired (fst (handle_events conf now e (s, tm))) = Some now"
proof -
  have m: "handle_movement_events conf e (s, tm) = (s, tm)"
    using assms(2,3) by (intro movement_ignores_weapon_repeat) simp_all
  have "torpedo_last_fired (fst (handle_firing_weapon_events conf now e (s, tm))) = Some now"
    using assms(2-4) by (intro firing_torpedo_repeat_fires) simp_all
  then show ?thesis using assms(1) m by (simp add: handle_events_def)
qed

text \<open>
  C2, as the code has it. While a weapon's last-fired timestamp is a non-zero tick T,
  no event other than that weapon's repeat event fires it at a tick up to T plus its
  cooldown: the key-down path checks the cooldown. The repeat path does not: every
  phaser repeat event handled by a live ship fires, and so does every torpedo repeat
  event below the cap, whatever the tick.
\<close>

theorem cooldown_guards_all_but_repeat_path:
  "(phaser_last_fired s = Some T \<and> T \<noteq> 0 \<and> now \<le> T + PHASER_FIRE_CD conf
      \<and> etype e \<noteq> fire_phaser_repeat_event s \<longrightarrow>
        phaser_last_fired (fst (handle_events conf now e (s, tm))) = Some T
      \<and> phaser (fst (handle_events conf now e (s, tm))) = phaser s
      \<and> phaser_group (fst (handle_events conf now e (s, tm))) = phaser_group s)
   \<and> (torpedo_last_fired s = Some T \<and> T \<noteq> 0 \<and> now \<le> T + TORPEDO_FIRE_CD conf
      \<and> etype e \<noteq> fire_torpedoes_repeat_event s \<longrightarrow>
        torpedo_last_fired (fst (handle_events conf now e (s, tm))) = Some T
      \<and> torpedo_group (fst (handle_events conf now e (s, tm))) = torpedo_group s)
   \<and> (alive s \<and> etype e = fire_phaser_repeat_event s \<longrightarrow>
        phaser_last_fired (fst (handle_events conf now e (s, tm))) = Some now)
   \<and> (alive s \<and> 0 \<le> player_id s \<and> etype e = fire_torpedoes_repeat_event s
      \<and> int (length (torpedo_group s)) < MAX_TORPEDOES_PER_SHIP conf \<longrightarrow>
        torpedo_last_fired (fst (handle_events conf now e (s, tm))) = Some now)"
  using handle_events_phaser_on_cooldown [of s T now conf e tm]
    handle_events_torpedo_on_cooldown [of s T now conf e tm]
    handle_events_phaser_repeat_fires [of s e conf now tm]
    handle_events_torpedo_repeat_fires [of s e conf now tm]
  by blast

lemma phaser_state_eq:
  "phaser_state =
     (example_human\<lparr>phaser := Some (Phaser 0 (400, 300) (0, 0) 0),
                     phaser_group := [Phaser 0 (400, 300) (0, 0) 0],
                     phaser_last_fired := Some 1160\<rparr>,
      no_timers(32773 := 150))"
  by (simp add: phaser_state_def handler_defs example_defs event_consts repeat_events)

text \<open>
  C2 as stated fails on the repeat path. The phaser key goes down at tick 1000; the
  timer's first event is handled at 1160 and fires, its second is handled at 1300 and
  fires again, 140 ticks later and before 1160 + 150.
\<close>

theorem repeat_fire_inside_cooldown:
  "phaser_last_fired (fst phaser_state) = Some 1160
   \<and> etype (timer_event 32773) = fire_phaser_repeat_event (fst phaser_state)
   \<and> snd phaser_state (fire_phaser_repeat_event (fst phaser_state)) = PHASER_FIRE_CD example_conf
   \<and> (1300::int) < 1160 + PHASER_FIRE_CD example_conf
   \<and> phaser_last_fired (fst (handle_events example_conf 1300 (timer_event 32773) phaser_state))
       = Some 1300"
  by (simp add: phaser_state_eq handler_defs example_defs event_consts repeat_events)

section \<open>Key-up cancels the repeat timer\<close>

lemma firing_timer_other:
  assumes "ev \<noteq> fire_phaser_repeat_event (fst w)" "ev \<noteq> fire_torpedoes_repeat_event (fst w)"
  shows "snd (handle_firing_weapon_events conf now e w) ev = snd w ev"
  using assms
  by (simp add: firing_defs Let_def repeat_events set_timer_def)

lemma movement_keyup_cancels:
  assumes "etype e = KEYUP" "key e = K_a \<or> key e = K_d \<or> key e = K_s"
  shows "snd (handle_movement_events conf e w) (movement_repeat_event (fst w) (key e)) = 0"
proof -
  have a: "key e = K_a \<Longrightarrow> ?thesis"
    using assms(1)
    by (simp add: movement_defs Let_def repeat_events set_timer_def movement_repeat_event_def event_consts)
  have d: "key e = K_d \<Longrightarrow> ?thesis"
    using assms(1)
    by (simp add: movement_defs Let_def repeat_events set_timer_def movement_repeat_event_def event_consts)
  have s: "key e = K_s \<Longrightarrow> ?thesis"
    using assms(1)
    by (simp add: movement_defs Let_def repeat_events set_timer_def movement_repeat_event_def event_consts)
  show ?thesis using assms(2) a d s by blast
qed

lemma movement_timer_stays_cancelled:
  assumes "snd w (movement_repeat_event (fst w) k) = 0" "k = K_a \<or> k = K_d \<or> k = K_s"
    and "\<not> (etype e = KEYDOWN \<and> key e = k)"
  shows "snd (handle_movement_events conf e w) (movement_repeat_event (fst w) k) = 0"
proof -
  have a: "k = K_a \<Longrightarrow> ?thesis"
    using assms(1,3)
    by (simp add: movement_defs Let_def repeat_events set_timer_def movement_repeat_event_def event_consts)
  have d: "k = K_d \<Longrightarrow> ?thesis"
    using assms(1,3)
    by (simp add: movement_defs Let_def repeat_events set_timer_def movement_repeat_event_def event_consts)
  have s: "k = K_s \<Longrightarrow> ?thesis"
    using assms(1,3)
    by (simp add: movement_defs Let_def repeat_events set_timer_def movement_repeat_event_def event_consts)
  show ?thesis using assms(2) a d s by blast
qed

lemma movement_repeat_event_not_weapon:
  "movement_repeat_event s k \<noteq> fire_phaser_repeat_event s'
     \<or> player_id s \<noteq> player_id s'"
  "movement_repeat_event s k \<noteq> fire_torpedoes_repeat_event s'
     \<or> player_id s \<noteq> player_id s'"
  by (simp_all add: movement_repeat_event_def repeat_events)

lemma movement_repeat_event_cong:
  "player_id s' = player_id s \<Longrightarrow> movement_repeat_event s' k = movement_repeat_event s k"
  by (simp add: movement_repeat_event_def repeat_events)

lemma handle_events_player_id:
  "player_id (fst (handle_events conf now e w)) = player_id (fst w)"
  by (simp add: handle_events_def firing_keeps_motion movement_keeps_weapons)

lemma handle_events_alive:
  "alive (fst (handle_events conf now e w)) = alive (fst w)"
  by (simp add: handle_events_def firing_keeps_motion movement_keeps_weapons)

lemma handle_events_timer_from_movement:
  assumes "alive (fst w)"
  shows "snd (handle_events conf now e w) (movement_repeat_event (fst w) k)
           = snd (handle_movement_events conf e w) (movement_repeat_event (fst w) k)"
proof -
  let ?m = "handle_movement_events conf e w"
  have p: "player_id (fst ?m) = player_id (fst w)" by (simp add: movement_keeps_weapons)
  have "movement_repeat_event (fst w) k \<noteq> fire_phaser_repeat_event (fst ?m)"
    and "movement_repeat_event (fst w) k \<noteq> fire_torpedoes_repeat_event (fst ?m)"
    using p movement_repeat_event_not_weapon [of "fst w" k "fst ?m"] by simp_all
  then have "snd (handle_firing_weapon_events conf now e ?m) (movement_repeat_event (fst w) k)
               = snd ?m (movement_repeat_event (fst w) k)"
    by (rule firing_timer_other)
  then show ?thesis using assms by (simp add: handle_events_def)
qed

lemma handle_events_timer_stays_cancelled:
  assumes "snd w (movement_repeat_event (fst w) k) = 0" "k = K_a \<or> k = K_d \<or> k = K_s"
    and "\<not> (etype e = KEYDOWN \<and> key e = k)"
  shows "snd (handle_events conf now e w) (movement_repeat_event (fst w) k) = 0"
proof (cases "alive (fst w)")
  case False
  then show ?thesis using assms(1) by (simp add: handle_events_def)
next
  case True
  then show ?thesis
    using movement_timer_stays_cancelled [OF assms]
    by (simp add: handle_events_timer_from_movement)
qed

lemma movement_repeat_event_is_user_event:
  "0 \<le> player_id s \<Longrightarrow> \<not> movement_repeat_event s k < USEREVENT"
  by (simp add: movement_repeat_event_def repeat_events)

lemma cancelled_timer_stays_silent:
  assumes "snd w (movement_repeat_event (fst w) k) = 0" "k = K_a \<or> k = K_d \<or> k = K_s"
    and "0 \<le> player_id (fst w)"
    and "deliverable conf tes w"
    and "\<forall>te \<in> set tes. \<not> (etype (snd te) = KEYDOWN \<and> key (snd te) = k)"
  shows "\<forall>te \<in> set tes. etype (snd te) \<noteq> movement_repeat_event (fst w) k"
  using assms
proof (induction tes arbitrary: w)
  case Nil
  then show ?case by simp
next
  case (Cons te tes)
  let ?w = "handle_events conf (fst te) (snd te) w"
  have ev: "movement_repeat_event (fst ?w) k = movement_repeat_event (fst w) k"
    by (rule movement_repeat_event_cong) (rule handle_events_player_id)
  have hd: "etype (snd te) \<noteq> movement_repeat_event (fst w) k"
  proof
    assume eq: "etype (snd te) = movement_repeat_event (fst w) k"
    from Cons.prems(4) have "etype (snd te) < USEREVENT \<or> snd w (etype (snd te)) \<noteq> 0" by simp
    then show False
      using eq Cons.prems(1) movement_repeat_event_is_user_event [OF Cons.prems(3), of k] by simp
  qed
  have nk: "\<not> (etype (snd te) = KEYDOWN \<and> key (snd te) = k)" using Cons.prems(5) by simp
  have z: "snd ?w (movement_repeat_event (fst ?w) k) = 0"
    using handle_events_timer_stays_cancelled [OF Cons.prems(1,2) nk] by (simp add: ev)
  have p: "0 \<le> player_id (fst ?w)" using Cons.prems(3) by (simp add: handle_events_player_id)
  have d: "deliverable conf tes ?w" using Cons.prems(4) by simp
  have r: "\<forall>te \<in> set tes. \<not> (etype (snd te) = KEYDOWN \<and> key (snd te) = k)"
    using Cons.prems(5) by simp
  from Cons.IH [OF z Cons.prems(2) p d r] have "\<forall>te \<in> set tes. etype (snd te) \<noteq> movement_repeat_event (fst w) k"
    by (simp add: ev)
  with hd show ?case by simp
qed

text \<open>
  C4. The key-up of a movement key sets the period of that key's repeat timer to 0.
  From then on, in every sequence of events that the timers can deliver and that holds
  no key-down of that key, no repeat event of that key occurs, so its repeat path adds
  no further rotation or thrust.
\<close>

theorem keyup_cancels_repeat_timer:
  assumes "etype e = KEYUP" and "key e = K_a \<or> key e = K_d \<or> key e = K_s"
    and "alive (fst w)" and "0 \<le> player_id (fst w)"
    and "deliverable conf tes (handle_events conf now e w)"
    and "\<forall>te \<in> set tes. \<not> (etype (snd te) = KEYDOWN \<and> key (snd te) = key e)"
  shows "snd (handle_movement_events conf e w) (movement_repeat_event (fst w) (key e)) = 0
       \<and> snd (handle_events conf now e w) (movement_repeat_event (fst w) (key e)) = 0
       \<and> (\<forall>te \<in> set tes. etype (snd te) \<noteq> movement_repeat_event (fst w) (key e))"
proof -
  let ?w = "handle_events conf now e w"
  have m: "snd (handle_movement_events conf e w) (movement_repeat_event (fst w) (key e)) = 0"
    using assms(1,2) by (rule movement_keyup_cancels)
  have h: "snd ?w (movement_repeat_event (fst w) (key e)) = 0"
    using m assms(3) by (simp add: handle_events_timer_from_movement)
  have ev: "movement_repeat_event (fst ?w) (key e) = movement_repeat_event (fst w) (key e)"
    by (rule movement_repeat_event_cong) (rule handle_events_player_id)
  have z: "snd ?w (movement_repeat_event (fst ?w) (key e)) = 0" using h by (simp add: ev)
  have p: "0 \<le> player_id (fst ?w)" using assms(4) by (simp add: handle_events_player_id)
  from cancelled_timer_stays_silent [OF z assms(2) p assms(5,6)]
  have "\<forall>te \<in> set tes. etype (snd te) \<noteq> movement_repeat_event (fst w) (key e)"
    by (simp add: ev)
  with m h show ?thesis by simp
qed

section \<open>Bounds on the projectile groups\<close>

lemma handle_events_torpedo_growth:
  assumes "length (torpedo_group s) < length (torpedo_group (fst (handle_events conf now e (s, tm))))"
  shows "int (length (torpedo_group s)) < MAX_TORPEDOES_PER_SHIP conf"
proof (cases "alive s")
  case False
  then show ?thesis using assms by (simp add: handle_events_def)
next
  case True
  let ?m = "handle_movement_events conf e (s, tm)"
  have "length (torpedo_group (fst ?m)) < length (torpedo_group (fst (handle_firing_weapon_events conf now e ?m)))"
    using assms True by (simp add: handle_events_def movement_keeps_weapons)
  then have "int (length (torpedo_group (fst ?m))) < MAX_TORPEDOES_PER_SHIP conf"
    by (rule firing_torpedo_growth)
  then show ?thesis by (simp add: movement_keeps_weapons)
qed

text \<open>
  C3. Across every sequence of event and update steps on any ships, no ship's torpedo
  group grows beyond \<^verbatim>\<open>MAX_TORPEDOES_PER_SHIP\<close>; and whenever handling an event makes the
  group longer, by the key-down path or by the repeat path, the count before the event
  was strictly below the maximum.
\<close>

theorem torpedo_count_never_exceeds_maximum:
  assumes "\<forall>i. int (length (torpedo_group (ships w i))) \<le> MAX_TORPEDOES_PER_SHIP conf"
  shows "(\<forall>i. int (length (torpedo_group (ships (run conf c steps w) i)))
              \<le> MAX_TORPEDOES_PER_SHIP conf)
       \<and> (length (torpedo_group s) < length (torpedo_group (fst (handle_events conf now e (s, tm))))
            \<longrightarrow> int (length (torpedo_group s)) < MAX_TORPEDOES_PER_SHIP conf)"
  using run_torpedo_bound [OF assms, of c steps] handle_events_torpedo_growth [of s conf now e tm]
  by blast

lemma torpedo_run_count:
  "length (torpedo_group (ships (run example_conf example_collaborators torpedo_steps example_world) 0)) = 3"
  by (simp add: torpedo_steps_def example_world_def example_collaborators_def handler_defs
      example_defs event_consts repeat_events update_groups_def group_update_def
      List.map_filter_simps update_keeps_groups)

theorem torpedo_count_never_exceeds_maximum_witness:
  "(\<forall>i. int (length (torpedo_group (ships example_world i))) \<le> MAX_TORPEDOES_PER_SHIP example_conf)
   \<and> int (length (torpedo_group
        (ships (run example_conf example_collaborators torpedo_steps example_world) 0)))
       \<le> MAX_TORPEDOES_PER_SHIP example_conf
   \<and> length (torpedo_group
        (ships (run example_conf example_collaborators torpedo_steps example_world) 0)) = 3
   \<and> length (torpedo_group example_human)
       < length (torpedo_group (fst (handle_events example_conf 1000 (timer_event 32772)
           (example_human, no_timers))))
   \<and> int (length (torpedo_group example_human)) < MAX_TORPEDOES_PER_SHIP example_conf"
proof -
  have h: "\<forall>i. int (length (torpedo_group (ships example_world i)))
             \<le> MAX_TORPEDOES_PER_SHIP example_conf"
    by (simp add: example_world_def example_human_fields example_conf_def)
  have g: "length (torpedo_group example_human)
       < length (torpedo_group (fst (handle_events example_conf 1000 (timer_event 32772)
           (example_human, no_timers))))"
    by (simp add: handler_defs example_defs event_consts repeat_events)
  note r = torpedo_count_never_exceeds_maximum [OF h, of example_collaborators torpedo_steps
      example_human 1000 "timer_event 32772" no_timers]
  show ?thesis using r h g torpedo_run_count by blast
qed

section \<open>The event theorems on concrete ships\<close>

theorem torpedo_cap_suppresses_fire_witness:
  "MAX_TORPEDOES_PER_SHIP example_conf \<le> int (length (torpedo_group full_human))
   \<and> 0 \<le> player_id full_human
   \<and> etype (key_event KEYDOWN K_e) = KEYDOWN \<and> key (key_event KEYDOWN K_e) = K_e
   \<and> etype (timer_event 32772) = fire_torpedoes_repeat_event full_human
   \<and> fst (handle_firing_weapon_events example_conf 1000 (key_event KEYDOWN K_e) (full_human, no_timers))
       = full_human
   \<and> fst (handle_events example_conf 1000 (key_event KEYDOWN K_e) (full_human, no_timers))
       = full_human
   \<and> fst (handle_events example_conf 1000 (timer_event 32772) (full_human, no_timers))
       = full_human"
proof -
  have c: "MAX_TORPEDOES_PER_SHIP example_conf \<le> int (length (torpedo_group full_human))"
    by (simp add: full_human_def example_conf_def)
  have p: "0 \<le> player_id full_human" by (simp add: full_human_def example_human_fields)
  have k: "etype (key_event KEYDOWN K_e) = KEYDOWN \<and> key (key_event KEYDOWN K_e) = K_e"
    by (simp add: key_event_def)
  have t: "etype (timer_event 32772) = fire_torpedoes_repeat_event full_human"
    by (simp add: timer_event_def full_human_def example_human_fields repeat_events event_consts)
  note a = torpedo_cap_suppresses_fire [OF c p disjI1 [OF k], of 1000 no_timers]
  note b = torpedo_cap_suppresses_fire [OF c p disjI2 [OF t], of 1000 no_timers]
  show ?thesis using a b c p k t by blast
qed

theorem rotation_lock_selects_direction_witness:
  "alive example_human \<and> 0 \<le> player_id example_human
   \<and> alive locked_human \<and> 0 \<le> player_id locked_human
   \<and> etype (timer_event 32769) = rotate_cc_repeat_event locked_human
   \<and> etype (timer_event 32770) = rotate_cw_repeat_event example_human
   \<and> ang (fst (handle_events example_conf 1100 (timer_event 32769) (locked_human, no_timers))) = 337.5
   \<and> ang (fst (handle_events example_conf 1100 (timer_event 32770) (locked_human, no_timers))) = 0
   \<and> ang (fst (handle_events example_conf 1100 (timer_event 32769) (example_human, no_timers))) = 0
   \<and> ang (fst (handle_events example_conf 1100 (timer_event 32770) (example_human, no_timers))) = 22.5"
proof -
  have a: "alive example_human" "0 \<le> player_id example_human"
    and l: "alive locked_human" "0 \<le> player_id locked_human"
    and f: "rotate_ccw_lock locked_human" "\<not> rotate_ccw_lock example_human"
      "ang locked_human = 0" "ang example_human = 0"
    by (simp_all add: locked_human_def example_human_fields)
  have t: "etype (timer_event 32769) = rotate_cc_repeat_event locked_human"
    "etype (timer_event 32770) = rotate_cw_repeat_event locked_human"
    "etype (timer_event 32769) = rotate_cc_repeat_event example_human"
    "etype (timer_event 32770) = rotate_cw_repeat_event example_human"
    by (simp_all add: timer_event_def locked_human_def example_human_fields repeat_events event_consts)
  have m: "py_mod (- 22.5) 360 = 337.5" "py_mod 22.5 360 = 22.5" "py_mod 0 360 = 0"
    by (simp_all add: py_mod_def)
  note r1 = rotation_lock_selects_direction [OF l, of "timer_event 32769" example_conf 1100 no_timers]
  note r2 = rotation_lock_selects_direction [OF l, of "timer_event 32770" example_conf 1100 no_timers]
  note r3 = rotation_lock_selects_direction [OF a, of "timer_event 32769" example_conf 1100 no_timers]
  note r4 = rotation_lock_selects_direction [OF a, of "timer_event 32770" example_conf 1100 no_timers]
  have c1: "ang (fst (handle_events example_conf 1100 (timer_event 32769) (locked_human, no_timers))) = 337.5"
    using r1 t(1) f m by simp
  have c2: "ang (fst (handle_events example_conf 1100 (timer_event 32770) (locked_human, no_timers))) = 0"
    using r2 t(2) f m by simp
  have c3: "ang (fst (handle_events example_conf 1100 (timer_event 32769) (example_human, no_timers))) = 0"
    using r3 t(3) f m by simp
  have c4: "ang (fst (handle_events example_conf 1100 (timer_event 32770) (example_human, no_timers))) = 22.5"
    using r4 t(4) f m by simp
  show ?thesis using a l t(1,4) c1 c2 c3 c4 by blast
qed


lemma cooling_human_fields:
  "phaser_last_fired cooling_human = Some 1000" "torpedo_last_fired cooling_human = Some 1000"
  "alive cooling_human" "player_id cooling_human = 0" "torpedo_group cooling_human = []"
  "phaser cooling_human = None" "phaser_group cooling_human = []"
  by (simp_all add: cooling_human_def example_human_fields)

theorem cooldown_guards_all_but_repeat_path_witness:
  "phaser_last_fired cooling_human = Some 1000 \<and> torpedo_last_fired cooling_human = Some 1000
   \<and> (1000::int) \<noteq> 0 \<and> 1100 \<le> 1000 + PHASER_FIRE_CD example_conf
   \<and> 1100 \<le> 1000 + TORPEDO_FIRE_CD example_conf
   \<and> etype (key_event KEYDOWN K_q) \<noteq> fire_phaser_repeat_event cooling_human
   \<and> etype (key_event KEYDOWN K_e) \<noteq> fire_torpedoes_repeat_event cooling_human
   \<and> alive cooling_human \<and> 0 \<le> player_id cooling_human
   \<and> etype (timer_event 32773) = fire_phaser_repeat_event cooling_human
   \<and> etype (timer_event 32772) = fire_torpedoes_repeat_event cooling_human
   \<and> int (length (torpedo_group cooling_human)) < MAX_TORPEDOES_PER_SHIP example_conf
   \<and> phaser_last_fired (fst (handle_events example_conf 1100 (key_event KEYDOWN K_q)
        (cooling_human, no_timers))) = Some 1000
   \<and> phaser_group (fst (handle_events example_conf 1100 (key_event KEYDOWN K_q)
        (cooling_human, no_timers))) = []
   \<and> torpedo_last_fired (fst (handle_events example_conf 1100 (key_event KEYDOWN K_e)
        (cooling_human, no_timers))) = Some 1000
   \<and> torpedo_group (fst (handle_events example_conf 1100 (key_event KEYDOWN K_e)
        (cooling_human, no_timers))) = []
   \<and> phaser_last_fired (fst (handle_events example_conf 1100 (timer_event 32773)
        (cooling_human, no_timers))) = Some 1100
   \<and> torpedo_last_fired (fst (handle_events example_conf 1100 (timer_event 32772)
        (cooling_human, no_timers))) = Some 1100"
proof -
  have h: "(1000::int) \<noteq> 0" "1100 \<le> 1000 + PHASER_FIRE_CD example_conf"
    "1100 \<le> 1000 + TORPEDO_FIRE_CD example_conf"
    "int (length (torpedo_group cooling_human)) < MAX_TORPEDOES_PER_SHIP example_conf"
    "0 \<le> player_id cooling_human"
    by (simp_all add: example_conf_def cooling_human_fields)
  have t: "etype (key_event KEYDOWN K_q) \<noteq> fire_phaser_repeat_event cooling_human"
    "etype (key_event KEYDOWN K_e) \<noteq> fire_torpedoes_repeat_event cooling_human"
    "etype (timer_event 32773) = fire_phaser_repeat_event cooling_human"
    "etype (timer_event 32772) = fire_torpedoes_repeat_event cooling_human"
    by (simp_all add: key_event_def timer_event_def cooling_human_fields repeat_events event_consts)
  note q = cooldown_guards_all_but_repeat_path
    [of cooling_human 1000 1100 example_conf "key_event KEYDOWN K_q" no_timers]
  note e = cooldown_guards_all_but_repeat_path
    [of cooling_human 1000 1100 example_conf "key_event KEYDOWN K_e" no_timers]
  note p = cooldown_guards_all_but_repeat_path
    [of cooling_human 1000 1100 example_conf "timer_event 32773" no_timers]
  note r = cooldown_guards_all_but_repeat_path
    [of cooling_human 1000 1100 example_conf "timer_event 32772" no_timers]
  have c1: "phaser_last_fired (fst (handle_events example_conf 1100 (key_event KEYDOWN K_q)
        (cooling_human, no_timers))) = Some 1000"
    and c2: "phaser_group (fst (handle_events example_conf 1100 (key_event KEYDOWN K_q)
        (cooling_human, no_timers))) = []"
    using q h t cooling_human_fields by simp_all
  have c3: "torpedo_last_fired (fst (handle_events example_conf 1100 (key_event KEYDOWN K_e)
        (cooling_human, no_timers))) = Some 1000"
    and c4: "torpedo_group (fst (handle_events example_conf 1100 (key_event KEYDOWN K_e)
        (cooling_human, no_timers))) = []"
    using e h t cooling_human_fields by simp_all
  have c5: "phaser_last_fired (fst (handle_events example_conf 1100 (timer_event 32773)
        (cooling_human, no_timers))) = Some 1100"
    using p h t cooling_human_fields by simp
  have c6: "torpedo_last_fired (fst (handle_events example_conf 1100 (timer_event 32772)
        (cooling_human, no_timers))) = Some 1100"
    using r h t cooling_human_fields by simp
  show ?thesis using h t cooling_human_fields(1-3) c1 c2 c3 c4 c5 c6 by blast
qed

lemma held_rotate_left_eq:
  "held_rotate_left =
     (example_human\<lparr>ang := - 22.5, rotate_ccw_lock := True\<rparr>, no_timers(32769 := 100))"
  by (simp add: held_rotate_left_def handler_defs example_defs event_consts repeat_events)

lemma held_rotate_left_fields:
  "alive (fst held_rotate_left)" "player_id (fst held_rotate_left) = 0"
  "snd held_rotate_left 32769 = 100"
  by (simp_all add: held_rotate_left_eq example_human_fields)

lemma after_release_deliverable:
  "deliverable example_conf after_release
     (handle_events example_conf 1050 (key_event KEYUP K_a) held_rotate_left)"
  by (simp add: after_release_def held_rotate_left_eq handler_defs example_defs event_consts
      repeat_events py_mod_def)

theorem keyup_cancels_repeat_timer_witness:
  "etype (key_event KEYUP K_a) = KEYUP \<and> key (key_event KEYUP K_a) = K_a
   \<and> alive (fst held_rotate_left) \<and> 0 \<le> player_id (fst held_rotate_left)
   \<and> snd held_rotate_left (movement_repeat_event (fst held_rotate_left) K_a) = 100
   \<and> deliverable example_conf after_release
        (handle_events example_conf 1050 (key_event KEYUP K_a) held_rotate_left)
   \<and> list_all (\<lambda>te. \<not> (etype (snd te) = KEYDOWN \<and> key (snd te) = K_a)) after_release
   \<and> snd (handle_events example_conf 1050 (key_event KEYUP K_a) held_rotate_left)
        (movement_repeat_event (fst held_rotate_left) K_a) = 0
   \<and> list_all (\<lambda>te. etype (snd te) \<noteq> movement_repeat_event (fst held_rotate_left) K_a)
        after_release"
proof -
  have u: "etype (key_event KEYUP K_a) = KEYUP" and k: "key (key_event KEYUP K_a) = K_a"
    by (simp_all add: key_event_def)
  have k': "key (key_event KEYUP K_a) = K_a \<or> key (key_event KEYUP K_a) = K_d
            \<or> key (key_event KEYUP K_a) = K_s"
    using k by simp
  have a: "alive (fst held_rotate_left)" and p: "0 \<le> player_id (fst held_rotate_left)"
    by (simp_all add: held_rotate_left_fields)
  have b: "snd held_rotate_left (movement_repeat_event (fst held_rotate_left) K_a) = 100"
    by (simp add: movement_repeat_event_def repeat_events event_consts held_rotate_left_fields)
  have n: "\<forall>te \<in> set after_release.
             \<not> (etype (snd te) = KEYDOWN \<and> key (snd te) = key (key_event KEYUP K_a))"
    by (simp add: after_release_def key_event_def timer_event_def event_consts)
  note r = keyup_cancels_repeat_timer [OF u k' a p after_release_deliverable n]
  show ?thesis using r u a p b after_release_deliverable n by (simp add: k list_all_iff)
qed


section \<open>The phaser group\<close>

lemma firing_phaser_repeat_replaces:
  assumes "etype e = fire_phaser_repeat_event s" "0 \<le> player_id s"
  shows "phaser_group (fst (handle_firing_weapon_events conf now e (s, tm)))
           = [Phaser (player_id s) (pos s) (vel s) (ang s)]"
  using assms
  by (simp add: firing_defs Let_def repeat_events event_consts group_single_add_def)

lemma firing_phaser_keydown_replaces:
  assumes "etype e = KEYDOWN" "key e = K_q" "0 \<le> player_id s"
    and "\<not> check_phaser_on_cooldown conf now s"
  shows "phaser_group (fst (handle_firing_weapon_events conf now e (s, tm)))
           = [Phaser (player_id s) (pos s) (vel s) (ang s)]"
  using assms
  by (simp add: firing_defs Let_def repeat_events event_consts group_single_add_def)

lemma handle_events_phaser_replaces:
  assumes "alive s" "0 \<le> player_id s"
    and "etype e = fire_phaser_repeat_event s
         \<or> (etype e = KEYDOWN \<and> key e = K_q \<and> \<not> check_phaser_on_cooldown conf now s)"
  shows "phaser_group (fst (handle_events conf now e (s, tm)))
           = [Phaser (player_id s) (pos s) (vel s) (ang s)]"
  using assms(3)
proof
  assume t: "etype e = fire_phaser_repeat_event s"
  then have m: "handle_movement_events conf e (s, tm) = (s, tm)"
    using assms(2) by (intro movement_ignores_weapon_repeat) simp_all
  show ?thesis using assms(1,2) t m
    by (simp add: handle_events_def firing_phaser_repeat_replaces)
next
  assume k: "etype e = KEYDOWN \<and> key e = K_q \<and> \<not> check_phaser_on_cooldown conf now s"
  then have m: "handle_movement_events conf e (s, tm) = (s, tm)"
    using assms(2) by (intro movement_ignores_weapon_keydown) simp_all
  show ?thesis using assms(1,2) k m
    by (simp add: handle_events_def firing_phaser_keydown_replaces)
qed

text \<open>
  C5. A ship has at most one active phaser beam: across every sequence of event and
  update steps the phaser group of every ship holds at most one sprite, and a fire
  (by the repeat event, or by key-down off cooldown) leaves exactly the newly
  constructed phaser in the group, whatever it held before.
\<close>

theorem at_most_one_phaser:
  assumes "\<forall>i. length (phaser_group (ships w i)) \<le> 1"
  shows "(\<forall>i. length (phaser_group (ships (run conf c steps w) i)) \<le> 1)
       \<and> (alive s \<and> 0 \<le> player_id s
            \<and> (etype e = fire_phaser_repeat_event s
               \<or> (etype e = KEYDOWN \<and> key e = K_q \<and> \<not> check_phaser_on_cooldown conf now s))
            \<longrightarrow> phaser_group (fst (handle_events conf now e (s, tm)))
                  = [Phaser (player_id s) (pos s) (vel s) (ang s)])"
  using run_phaser_bound [OF assms, of conf c steps]
    handle_events_phaser_replaces [of s e conf now tm]
  by blast

lemma phaser_run_group:
  "phaser_group (ships (run example_conf example_collaborators phaser_steps example_world) 0)
     = [Phaser 0 (400, 300) (0, 0) 0]"
  by (simp add: phaser_steps_def example_world_def example_collaborators_def handler_defs
      example_defs event_consts repeat_events update_groups_def group_update_def
      List.map_filter_simps update_keeps_groups)

theorem at_most_one_phaser_witness:
  "(\<forall>i. length (phaser_group (ships example_world i)) \<le> 1)
   \<and> length (phaser_group
        (ships (run example_conf example_collaborators phaser_steps example_world) 0)) \<le> 1
   \<and> phaser_group (ships (run example_conf example_collaborators phaser_steps example_world) 0)
       = [Phaser 0 (400, 300) (0, 0) 0]
   \<and> alive (fst phaser_state) \<and> 0 \<le> player_id (fst phaser_state)
   \<and> etype (timer_event 32773) = fire_phaser_repeat_event (fst phaser_state)
   \<and> phaser_group (fst phaser_state) = [Phaser 0 (400, 300) (0, 0) 0]
   \<and> phaser_group (fst (handle_events example_conf 1300 (timer_event 32773) phaser_state))
       = [Phaser 0 (400, 300) (0, 0) 0]"
proof -
  have h: "\<forall>i. length (phaser_group (ships example_world i)) \<le> 1"
    by (simp add: example_world_def example_human_fields)
  have f: "alive (fst phaser_state)" "0 \<le> player_id (fst phaser_state)"
    "etype (timer_event 32773) = fire_phaser_repeat_event (fst phaser_state)"
    "phaser_group (fst phaser_state) = [Phaser 0 (400, 300) (0, 0) 0]"
    "player_id (fst phaser_state) = 0" "pos (fst phaser_state) = (400, 300)"
    "vel (fst phaser_state) = (0, 0)" "ang (fst phaser_state) = 0"
    by (simp_all add: phaser_state_eq example_human_fields timer_event_def repeat_events event_consts)
  note r = at_most_one_phaser [OF h, of example_conf example_collaborators phaser_steps
      "fst phaser_state" "timer_event 32773" 1300 "snd phaser_state"]
  have c: "phaser_group (fst (handle_events example_conf 1300 (timer_event 32773) phaser_state))
       = [Phaser 0 (400, 300) (0, 0) 0]"
    using r f by simp
  show ?thesis using r h f(1-4) c phaser_run_group by blast
qed

end
